theory Spec2Isabelle
  imports Main "HOL-Library.Sublist"
begin

section \<open>Python strings\<close>

text \<open>
  A Python \<open>str\<close> is a sequence of Unicode code points. A code point is a natural number
  and a string is a list of them, so that \<open>len\<close>, \<open>strip\<close> and \<open>splitlines\<close> count
  what Python counts. ASCII text is written with \<open>asc\<close>; the CJK labels of the program are
  given by their code points.
\<close>

type_synonym pystr = "nat list"

definition asc :: "string \<Rightarrow> pystr" where
  "asc s = map of_char s"

text \<open>The code points for which \<open>str.isspace\<close> holds; \<open>str.strip()\<close> removes exactly these.\<close>

definition is_space :: "nat \<Rightarrow> bool" where
  "is_space c \<longleftrightarrow>
     (9 \<le> c \<and> c \<le> 13) \<or> (28 \<le> c \<and> c \<le> 32) \<or> c = 133 \<or> c = 160 \<or> c = 5760 \<or>
     (8192 \<le> c \<and> c \<le> 8202) \<or> c = 8232 \<or> c = 8233 \<or> c = 8239 \<or> c = 8287 \<or> c = 12288"

definition lstrip :: "pystr \<Rightarrow> pystr" where
  "lstrip s = dropWhile is_space s"

definition rstrip :: "pystr \<Rightarrow> pystr" where
  "rstrip s = rev (dropWhile is_space (rev s))"

definition strip :: "pystr \<Rightarrow> pystr" where
  "strip s = rstrip (lstrip s)"

text \<open>\<open>s.strip(".")\<close>: the same with a one-character set.\<close>

definition strip_chars :: "nat set \<Rightarrow> pystr \<Rightarrow> pystr" where
  "strip_chars cs s = rev (dropWhile (\<lambda>c. c \<in> cs) (rev (dropWhile (\<lambda>c. c \<in> cs) s)))"

definition startswith :: "pystr \<Rightarrow> pystr \<Rightarrow> bool" where
  "startswith s p \<longleftrightarrow> take (length p) s = p"

text \<open>\<open>sep.join(parts)\<close>.\<close>

fun join :: "pystr \<Rightarrow> pystr list \<Rightarrow> pystr" where
  "join sep [] = []"
| "join sep [x] = x"
| "join sep (x # y # ys) = x @ sep @ join sep (y # ys)"

text \<open>
  The line boundaries of \<open>str.splitlines()\<close>: LF, VT, FF, CR, FS, GS, RS, NEL, LS, PS,
  and CR LF as one boundary. A boundary at the very end opens no further line.
  The flag says that the previous character was a CR that already closed a line.
\<close>

definition is_linebreak :: "nat \<Rightarrow> bool" where
  "is_linebreak c \<longleftrightarrow>
     (10 \<le> c \<and> c \<le> 13) \<or> (28 \<le> c \<and> c \<le> 30) \<or> c = 133 \<or> c = 8232 \<or> c = 8233"

fun splitlines_from :: "bool \<Rightarrow> pystr \<Rightarrow> pystr \<Rightarrow> pystr list" where
  "splitlines_from after_cr cur [] = (if cur = [] then [] else [cur])"
| "splitlines_from after_cr cur (c # cs) =
     (if after_cr \<and> c = 10 then splitlines_from False cur cs
      else if is_linebreak c then cur # splitlines_from (c = 13) [] cs
      else splitlines_from False (cur @ [c]) cs)"

definition splitlines :: "pystr \<Rightarrow> pystr list" where
  "splitlines s = splitlines_from False [] s"

text \<open>\<open>s.replace(old, new)\<close> for a one-character \<open>old\<close>.\<close>

definition replace_char :: "nat \<Rightarrow> pystr \<Rightarrow> pystr \<Rightarrow> pystr" where
  "replace_char old new s = concat (map (\<lambda>c. if c = old then new else [c]) s)"

text \<open>
  \<open>line.split(sep, 1)[1]\<close> for a one-character separator: what follows the first
  occurrence of the separator; Python raises IndexError when there is none.
\<close>

fun after_first :: "nat \<Rightarrow> pystr \<Rightarrow> pystr option" where
  "after_first sep [] = None"
| "after_first sep (c # cs) = (if c = sep then Some cs else after_first sep cs)"

text \<open>\<open>str(n)\<close> for an integer: decimal digits, with a minus sign when negative.\<close>

fun str_nat :: "nat \<Rightarrow> pystr" where
  "str_nat n = (if n < 10 then [48 + n] else str_nat (n div 10) @ [48 + n mod 10])"

declare str_nat.simps [simp del]

definition str_int :: "int \<Rightarrow> pystr" where
  "str_int i = (if i < 0 then 45 # str_nat (nat (- i)) else str_nat (nat i))"

section \<open>JSON values\<close>

text \<open>
  What \<open>json.loads\<close> returns: \<open>None\<close>, \<open>bool\<close>, \<open>int\<close>, \<open>float\<close>, \<open>str\<close>, \<open>list\<close>
  and \<open>dict\<close> with string keys. A dict keeps its insertion order and is an association
  list read at the first match. The program only prints floats and tests them for
  truth, so a float is carried as the text \<open>str()\<close> prints for it (\<open>1.5\<close>, \<open>1e+16\<close>,
  \<open>-0.0\<close>, \<open>nan\<close>).
\<close>

datatype json =
    JNull
  | JBool bool
  | JInt int
  | JFloat pystr
  | JStr pystr
  | JList "json list"
  | JDict "(pystr \<times> json) list"

text \<open>\<open>d.get(k)\<close> is \<open>None\<close> for a missing key; \<open>d.get(k, default)\<close> takes a default.\<close>

definition dict_get_default :: "(pystr \<times> json) list \<Rightarrow> pystr \<Rightarrow> json \<Rightarrow> json" where
  "dict_get_default d k dflt = (case map_of d k of None \<Rightarrow> dflt | Some v \<Rightarrow> v)"

definition dict_get :: "(pystr \<times> json) list \<Rightarrow> pystr \<Rightarrow> json" where
  "dict_get d k = dict_get_default d k JNull"

text \<open>\<open>d[k] = v\<close>: an existing key keeps its place, a new key goes to the end.\<close>

fun dict_set :: "(pystr \<times> json) list \<Rightarrow> pystr \<Rightarrow> json \<Rightarrow> (pystr \<times> json) list" where
  "dict_set [] k v = [(k, v)]"
| "dict_set ((k', v') # d) k v = (if k' = k then (k, v) # d else (k', v') # dict_set d k v)"

text \<open>Python truth: \<open>None\<close>, \<open>False\<close>, zero, and the empty string, list and dict are false.\<close>

fun truthy :: "json \<Rightarrow> bool" where
  "truthy JNull = False"
| "truthy (JBool b) = b"
| "truthy (JInt i) = (i \<noteq> 0)"
| "truthy (JFloat r) = (r \<noteq> asc ''0.0'' \<and> r \<noteq> asc ''-0.0'')"
| "truthy (JStr s) = (s \<noteq> [])"
| "truthy (JList xs) = (xs \<noteq> [])"
| "truthy (JDict d) = (d \<noteq> [])"

text \<open>\<open>a or b\<close> is \<open>a\<close> when \<open>a\<close> is true, else \<open>b\<close>, whatever \<open>b\<close> is.\<close>

definition py_or :: "json \<Rightarrow> json \<Rightarrow> json" where
  "py_or a b = (if truthy a then a else b)"

text \<open>
  \<open>str(v)\<close>. For a list or a dict Python prints the \<open>repr\<close> of the items, and the
  \<open>repr\<close> of a string chooses its quotes and escapes by the interpreter's table of
  printable code points; that function is the parameter \<open>repr_str\<close>.
\<close>

fun py_repr :: "(pystr \<Rightarrow> pystr) \<Rightarrow> json \<Rightarrow> pystr" where
  "py_repr repr_str JNull = asc ''None''"
| "py_repr repr_str (JBool b) = (if b then asc ''True'' else asc ''False'')"
| "py_repr repr_str (JInt i) = str_int i"
| "py_repr repr_str (JFloat r) = r"
| "py_repr repr_str (JStr s) = repr_str s"
| "py_repr repr_str (JList xs) =
     asc ''['' @ join (asc '', '') (map (py_repr repr_str) xs) @ asc '']''"
| "py_repr repr_str (JDict d) =
     asc ''{'' @ join (asc '', '')
        (map (\<lambda>kv. repr_str (fst kv) @ asc '': '' @ py_repr repr_str (snd kv)) d) @ asc ''}''"

definition py_str :: "(pystr \<Rightarrow> pystr) \<Rightarrow> json \<Rightarrow> pystr" where
  "py_str repr_str v = (case v of JStr s \<Rightarrow> s | _ \<Rightarrow> py_repr repr_str v)"

section \<open>Description blocks\<close>

record DescriptionBlock =
  title :: pystr
  content :: pystr

text \<open>The label \<open>f"\<dots> {idx + 1}"\<close>: the two CJK characters U+8981 U+70B9, a space, the number.\<close>

definition point_title :: "nat \<Rightarrow> pystr" where
  "point_title idx = [35201, 28857, 32] @ str_int (int idx + 1)"

text \<open>\<open>_block_from_mapping(mapping, idx=None)\<close>.\<close>

definition block_from_mapping ::
    "(pystr \<Rightarrow> pystr) \<Rightarrow> json \<Rightarrow> nat option \<Rightarrow> DescriptionBlock option" where
  "block_from_mapping repr_str mapping idx =
     (case mapping of
        JDict m \<Rightarrow>
          (let title_raw = py_or (dict_get m (asc ''title''))
                             (py_or (dict_get m (asc ''label'')) (dict_get m (asc ''name'')));
               content_raw = py_or (dict_get m (asc ''text''))
                               (py_or (dict_get m (asc ''content''))
                                 (py_or (dict_get m (asc ''desc''))
                                   (py_or (dict_get m (asc ''description''))
                                          (dict_get m (asc ''value'')))))
           in if content_raw = JNull then None
              else let content = strip (py_str repr_str content_raw)
                   in if content = [] then None
                      else let title = (if truthy title_raw
                                        then strip (py_str repr_str title_raw) else []);
                               title = (if title = [] \<and> idx \<noteq> None
                                        then point_title (the idx) else title)
                           in Some \<lparr>title = title, content = content\<rparr>)
      | _ \<Rightarrow> None)"

text \<open>
  The mapping rule as the specification words it: the title is the value of the first
  key that is present among \<open>title\<close>, \<open>label\<close>, \<open>name\<close>, the content the value of the
  first key that is present among \<open>text\<close>, \<open>content\<close>, \<open>desc\<close>, \<open>description\<close>,
  \<open>value\<close>; the positional title stands in when no title key is present.
\<close>

definition first_present :: "(pystr \<times> json) list \<Rightarrow> pystr list \<Rightarrow> json option" where
  "first_present m ks = (case List.map_filter (map_of m) ks of [] \<Rightarrow> None | v # _ \<Rightarrow> Some v)"

definition block_from_mapping_spec ::
    "(pystr \<Rightarrow> pystr) \<Rightarrow> (pystr \<times> json) list \<Rightarrow> nat option \<Rightarrow> DescriptionBlock option" where
  "block_from_mapping_spec repr_str m idx =
     (case first_present m [asc ''text'', asc ''content'', asc ''desc'', asc ''description'',
                            asc ''value''] of
        None \<Rightarrow> None
      | Some c \<Rightarrow>
          if strip (py_str repr_str c) = [] then None
          else Some \<lparr>title =
                       (case first_present m [asc ''title'', asc ''label'', asc ''name''] of
                          Some t \<Rightarrow> strip (py_str repr_str t)
                        | None \<Rightarrow> (case idx of Some i \<Rightarrow> point_title i | None \<Rightarrow> [])),
                     content = strip (py_str repr_str c)\<rparr>)"

text \<open>
  What the \<open>or\<close> chains of the source select: the first value that is true in Python's
  sense, and for the content the value under \<open>value\<close> when none of the four before it is.
\<close>

definition title_source :: "(pystr \<times> json) list \<Rightarrow> json option" where
  "title_source m =
     List.find truthy (map (dict_get m) [asc ''title'', asc ''label'', asc ''name''])"

definition content_source :: "(pystr \<times> json) list \<Rightarrow> json option" where
  "content_source m =
     (case List.find truthy
             (map (dict_get m) [asc ''text'', asc ''content'', asc ''desc'', asc ''description''])
      of Some v \<Rightarrow> Some v
       | None \<Rightarrow> (if dict_get m (asc ''value'') = JNull then None
                   else Some (dict_get m (asc ''value''))))"


section \<open>Normalising a description\<close>

text \<open>
  The loop of \<open>_coerce_desc_value\<close> over \<open>enumerate(value)\<close>: strings that are not
  blank after trimming become paragraphs, dicts become blocks with the item's index as
  position, every other item is passed over.
\<close>

fun coerce_desc_items ::
    "(pystr \<Rightarrow> pystr) \<Rightarrow> nat \<Rightarrow> json list \<Rightarrow> pystr list \<Rightarrow> DescriptionBlock list
       \<Rightarrow> pystr list \<times> DescriptionBlock list" where
  "coerce_desc_items repr_str idx [] paragraphs blocks = (paragraphs, blocks)"
| "coerce_desc_items repr_str idx (item # rest) paragraphs blocks =
     (case item of
        JStr s \<Rightarrow>
          (let cleaned = strip s
           in if cleaned \<noteq> []
              then coerce_desc_items repr_str (idx + 1) rest (paragraphs @ [cleaned]) blocks
              else coerce_desc_items repr_str (idx + 1) rest paragraphs blocks)
      | JDict m \<Rightarrow>
          (case block_from_mapping repr_str item (Some idx) of
             Some block \<Rightarrow> coerce_desc_items repr_str (idx + 1) rest paragraphs (blocks @ [block])
           | None \<Rightarrow> coerce_desc_items repr_str (idx + 1) rest paragraphs blocks)
      | _ \<Rightarrow> coerce_desc_items repr_str (idx + 1) rest paragraphs blocks)"

text \<open>
  \<open>_coerce_desc_value\<close>. A \<open>bool\<close> is an \<open>int\<close> for \<open>isinstance\<close>, so \<open>True\<close> and
  \<open>False\<close> leave through the number branch; the last \<open>return\<close> of the source is not
  reached by a value of \<open>json.loads\<close>.
\<close>

definition coerce_desc_value ::
    "(pystr \<Rightarrow> pystr) \<Rightarrow> json \<Rightarrow> pystr \<times> DescriptionBlock list" where
  "coerce_desc_value repr_str value =
     (case value of
        JNull \<Rightarrow> ([], [])
      | JStr s \<Rightarrow> (strip s, [])
      | JBool b \<Rightarrow> (py_str repr_str value, [])
      | JInt i \<Rightarrow> (py_str repr_str value, [])
      | JFloat r \<Rightarrow> (py_str repr_str value, [])
      | JList items \<Rightarrow>
          (case coerce_desc_items repr_str 0 items [] [] of
             (paragraphs, blocks) \<Rightarrow> (join [10] paragraphs, blocks))
      | JDict m \<Rightarrow>
          (case block_from_mapping repr_str value None of
             Some block \<Rightarrow> ([], [block])
           | None \<Rightarrow> ([], [])))"

text \<open>The loop of \<open>_coerce_blocks\<close>, and the function.\<close>

fun coerce_block_items ::
    "(pystr \<Rightarrow> pystr) \<Rightarrow> nat \<Rightarrow> json list \<Rightarrow> DescriptionBlock list \<Rightarrow> DescriptionBlock list" where
  "coerce_block_items repr_str idx [] blocks = blocks"
| "coerce_block_items repr_str idx (item # rest) blocks =
     (case item of
        JDict m \<Rightarrow>
          (case block_from_mapping repr_str item (Some idx) of
             Some block \<Rightarrow> coerce_block_items repr_str (idx + 1) rest (blocks @ [block])
           | None \<Rightarrow> coerce_block_items repr_str (idx + 1) rest blocks)
      | JStr s \<Rightarrow>
          (let text = strip s
           in if text \<noteq> []
              then coerce_block_items repr_str (idx + 1) rest
                     (blocks @ [\<lparr>title = point_title idx, content = text\<rparr>])
              else coerce_block_items repr_str (idx + 1) rest blocks)
      | _ \<Rightarrow> coerce_block_items repr_str (idx + 1) rest blocks)"

definition coerce_blocks :: "(pystr \<Rightarrow> pystr) \<Rightarrow> json \<Rightarrow> DescriptionBlock list" where
  "coerce_blocks repr_str value =
     (case value of
        JList items \<Rightarrow> coerce_block_items repr_str 0 items []
      | JDict m \<Rightarrow>
          (case block_from_mapping repr_str value None of Some block \<Rightarrow> [block] | None \<Rightarrow> [])
      | _ \<Rightarrow> [])"

section \<open>Parsing a metadata file\<close>

text \<open>
  The \<open>ValueError\<close>s that the source raises, under the names of the specification
  (\<open>IoFailure\<close>, \<open>EmptyMetadata\<close>, \<open>MalformedJson\<close>, \<open>InvalidMetadataShape\<close>,
  \<open>MissingMetadataFile\<close>), and the exceptions of the standard library that the source
  lets through: the \<open>UnicodeDecodeError\<close> of \<open>read_text\<close> (\<open>DecodeFailure\<close>), the plain
  \<open>ValueError\<close> and the \<open>RecursionError\<close> of \<open>json.loads\<close>, and the \<open>IndexError\<close> of
  a subscript.
\<close>

datatype error =
    IoFailure
  | DecodeFailure
  | EmptyMetadata
  | MalformedJson pystr
  | InvalidMetadataShape
  | MissingMetadataFile
  | JsonValueError pystr
  | JsonRecursionError
  | IndexError

text \<open>
  \<open>except ValueError\<close> catches a \<open>ValueError\<close> and its subclasses, \<open>UnicodeDecodeError\<close>
  among them; \<open>RecursionError\<close> and \<open>IndexError\<close> are not such.
\<close>

fun is_value_error :: "error \<Rightarrow> bool" where
  "is_value_error JsonRecursionError = False"
| "is_value_error IndexError = False"
| "is_value_error e = True"

text \<open>The dict that \<open>_normalize_metadata\<close> and \<open>_parse_legacy_metadata\<close> return.\<close>

record metadata =
  md_name :: pystr
  md_price :: pystr
  md_description :: pystr
  md_description_blocks :: "DescriptionBlock list"

definition normalize_metadata :: "(pystr \<Rightarrow> pystr) \<Rightarrow> json \<Rightarrow> error + metadata" where
  "normalize_metadata repr_str data =
     (case data of
        JDict d \<Rightarrow>
          (let name = strip (py_str repr_str (dict_get_default d (asc ''name'') (JStr [])));
               price = strip (py_str repr_str (dict_get_default d (asc ''price'') (JStr [])));
               coerced = coerce_desc_value repr_str (dict_get d (asc ''description''));
               desc_text = fst coerced;
               blocks = snd coerced;
               desc_text = (case dict_get d (asc ''desc'') of
                              JStr s \<Rightarrow> if desc_text = [] then strip s else desc_text
                            | _ \<Rightarrow> desc_text);
               blocks = blocks @ coerce_blocks repr_str (dict_get d (asc ''description_blocks''));
               blocks = blocks @ coerce_blocks repr_str (dict_get d (asc ''sections''));
               blocks = blocks @ coerce_blocks repr_str (dict_get d (asc ''highlights''))
           in Inr \<lparr>md_name = name, md_price = price, md_description = desc_text,
                   md_description_blocks = blocks\<rparr>)
      | _ \<Rightarrow> Inl InvalidMetadataShape)"

text \<open>
  The three labels of the legacy format, each two CJK characters and the fullwidth
  colon U+FF1A: U+540D U+79F0 (name), U+4ECB U+7ECD (description), U+4EF7 U+683C (price).
\<close>

definition fullwidth_colon :: nat where
  "fullwidth_colon = 65306"

definition label_name :: pystr where
  "label_name = [21517, 31216, 65306]"

definition label_desc :: pystr where
  "label_desc = [20171, 32461, 65306]"

definition label_price :: pystr where
  "label_price = [20215, 26684, 65306]"

text \<open>
  The state of the loop of \<open>_parse_legacy_metadata\<close> and its body for one line.
  \<open>line.split(colon, 1)[1]\<close> raises IndexError when the line has no colon.
\<close>

record legacy_state =
  ls_name :: pystr
  ls_price :: pystr
  description_lines :: "pystr list"
  collecting_desc :: bool

definition legacy_line :: "pystr \<Rightarrow> legacy_state \<Rightarrow> error + legacy_state" where
  "legacy_line raw_line st =
     (let line = strip raw_line
      in if line = [] then
           (if collecting_desc st
            then Inr (st\<lparr>description_lines := description_lines st @ [[]]\<rparr>)
            else Inr st)
         else if startswith line label_name then
           (case after_first fullwidth_colon line of
              None \<Rightarrow> Inl IndexError
            | Some rest \<Rightarrow> Inr (st\<lparr>ls_name := strip rest, collecting_desc := False\<rparr>))
         else if startswith line label_desc then
           (case after_first fullwidth_colon line of
              None \<Rightarrow> Inl IndexError
            | Some rest \<Rightarrow> Inr (st\<lparr>description_lines := [strip rest], collecting_desc := True\<rparr>))
         else if startswith line label_price then
           (case after_first fullwidth_colon line of
              None \<Rightarrow> Inl IndexError
            | Some rest \<Rightarrow> Inr (st\<lparr>ls_price := strip rest, collecting_desc := False\<rparr>))
         else if collecting_desc st then
           Inr (st\<lparr>description_lines := description_lines st @ [line]\<rparr>)
         else Inr st)"

fun legacy_lines :: "pystr list \<Rightarrow> legacy_state \<Rightarrow> error + legacy_state" where
  "legacy_lines [] st = Inr st"
| "legacy_lines (raw_line # rest) st =
     (case legacy_line raw_line st of
        Inl e \<Rightarrow> Inl e
      | Inr st' \<Rightarrow> legacy_lines rest st')"

definition parse_legacy_metadata :: "pystr \<Rightarrow> error + metadata" where
  "parse_legacy_metadata text =
     (case legacy_lines (splitlines text)
             \<lparr>ls_name = [], ls_price = [], description_lines = [], collecting_desc = False\<rparr> of
        Inl e \<Rightarrow> Inl e
      | Inr st \<Rightarrow>
          Inr \<lparr>md_name = ls_name st, md_price = ls_price st,
               md_description =
                 strip (join [10] (filter (\<lambda>part. strip part \<noteq> [] \<or> part = [])
                                          (description_lines st))),
               md_description_blocks = []\<rparr>)"

text \<open>
  What \<open>path.read_text(encoding="utf-8")\<close> gives: the text, an \<open>OSError\<close>, or a
  \<open>UnicodeDecodeError\<close>, which is a \<open>ValueError\<close> that the source does not catch here.
  The original structure kept beside the normalised fields is the parsed tree or the
  trimmed legacy text.
\<close>

datatype file_read = Text pystr | OSError | UnicodeDecodeError

datatype raw_meta = RawJson json | RawText pystr | RawNone

text \<open>
  How \<open>json.loads\<close> ends on a string: with the tree, with a \<open>JSONDecodeError\<close> and its
  message for text that is not JSON, with a plain \<open>ValueError\<close> for an integer literal
  of more digits than the interpreter converts (4300 by default), or with a
  \<open>RecursionError\<close> for brackets nested too deep.
\<close>

datatype loads_result =
    Parsed json
  | JSONDecodeError pystr
  | ValueError pystr
  | RecursionError

text \<open>
  \<open>_parse_metadata_file\<close>. Of the path the function reads \<open>path.suffix\<close> and the file.
  \<open>json.loads\<close> is the parameter \<open>json_loads\<close>; \<open>str.lower\<close> is the parameter \<open>lower\<close>.
  The source catches the \<open>JSONDecodeError\<close> only: the other two exceptions of the
  parser leave the function as they are.
\<close>

definition parse_metadata_file ::
    "(pystr \<Rightarrow> loads_result) \<Rightarrow> (pystr \<Rightarrow> pystr) \<Rightarrow> (pystr \<Rightarrow> pystr) \<Rightarrow> pystr \<Rightarrow> file_read
       \<Rightarrow> error + metadata \<times> raw_meta" where
  "parse_metadata_file json_loads lower repr_str path_suffix rd =
     (case rd of
        OSError \<Rightarrow> Inl IoFailure
      | UnicodeDecodeError \<Rightarrow> Inl DecodeFailure
      | Text t \<Rightarrow>
          (let text = strip t
           in if text = [] then Inl EmptyMetadata
              else
                let looks_like_json =
                      (lower path_suffix = asc ''.json'' \<or> startswith (lstrip text) (asc ''{''))
                in if looks_like_json then
                     (case json_loads text of
                        JSONDecodeError msg \<Rightarrow> Inl (MalformedJson msg)
                      | ValueError msg \<Rightarrow> Inl (JsonValueError msg)
                      | RecursionError \<Rightarrow> Inl JsonRecursionError
                      | Parsed raw \<Rightarrow>
                          (case normalize_metadata repr_str raw of
                             Inl e \<Rightarrow> Inl e
                           | Inr md \<Rightarrow> Inr (md, RawJson raw)))
                   else
                     (case parse_legacy_metadata text of
                        Inl e \<Rightarrow> Inl e
                      | Inr md \<Rightarrow> Inr (md, RawText text))))"

section \<open>Writing a metadata file\<close>

text \<open>The fields of the edit form that the writer reads: \<open>data["name"]\<close>, \<open>data["price"]\<close>, \<open>data["desc"]\<close>.\<close>

record edit_data =
  ed_name :: pystr
  ed_price :: pystr
  ed_desc :: pystr

text \<open>The loop of \<open>_split_paragraphs\<close> with its two lists, and the function.\<close>

fun split_paragraphs_loop :: "pystr list \<Rightarrow> pystr list \<Rightarrow> pystr list \<Rightarrow> pystr list" where
  "split_paragraphs_loop [] blocks current =
     (if current \<noteq> [] then blocks @ [join (asc '' '') current] else blocks)"
| "split_paragraphs_loop (line # rest) blocks current =
     (if strip line \<noteq> [] then split_paragraphs_loop rest blocks (current @ [strip line])
      else if current \<noteq> [] then split_paragraphs_loop rest (blocks @ [join (asc '' '') current]) []
      else split_paragraphs_loop rest blocks current)"

definition split_paragraphs :: "pystr \<Rightarrow> pystr list" where
  "split_paragraphs text =
     (if text = [] then [] else split_paragraphs_loop (splitlines text) [] [])"

definition convert_desc_for_json :: "json \<Rightarrow> pystr \<Rightarrow> json" where
  "convert_desc_for_json existing_value text =
     (let stripped = strip text
      in case existing_value of
           JList items \<Rightarrow> JList (map JStr (split_paragraphs stripped))
         | _ \<Rightarrow> JStr stripped)"

definition prepare_json_payload :: "raw_meta \<Rightarrow> edit_data \<Rightarrow> (pystr \<times> json) list" where
  "prepare_json_payload raw data =
     (let payload = (case raw of RawJson (JDict d) \<Rightarrow> d | _ \<Rightarrow> []);
          payload = dict_set payload (asc ''name'') (JStr (ed_name data));
          payload = dict_set payload (asc ''price'') (JStr (ed_price data));
          payload = dict_set payload (asc ''description'')
                      (convert_desc_for_json (dict_get payload (asc ''description'')) (ed_desc data));
          payload = (if asc ''desc'' \<in> set (map fst payload)
                     then dict_set payload (asc ''desc'') (JStr (ed_desc data)) else payload)
      in payload)"

definition build_legacy_text :: "edit_data \<Rightarrow> pystr" where
  "build_legacy_text data =
     label_name @ ed_name data @ [10] @ label_desc @ ed_desc data @ [10]
       @ label_price @ ed_price data @ [10]"

text \<open>
  \<open>_write_metadata\<close>: what is written, as the tree handed to \<open>json.dumps\<close> or as the
  legacy text.
\<close>

datatype written = JsonFile "(pystr \<times> json) list" | TextFile pystr

definition write_metadata :: "(pystr \<Rightarrow> pystr) \<Rightarrow> pystr \<Rightarrow> edit_data \<Rightarrow> raw_meta \<Rightarrow> written" where
  "write_metadata lower path_suffix data raw =
     (if lower path_suffix = asc ''.json'' then JsonFile (prepare_json_payload raw data)
      else TextFile (build_legacy_text data))"

section \<open>Rendering\<close>

text \<open>
  \<open>html.escape(s, quote=True)\<close>: five replacements, the ampersand first.
\<close>

definition html_escape :: "pystr \<Rightarrow> pystr" where
  \<open>html_escape s =
     replace_char 39 (asc ''&#x27;'')
       (replace_char 34 (asc ''&quot;'')
         (replace_char 62 (asc ''&gt;'')
           (replace_char 60 (asc ''&lt;'')
             (replace_char 38 (asc ''&amp;'') s))))\<close>

definition render_inline :: "pystr \<Rightarrow> pystr" where
  "render_inline value = (if value \<noteq> [] then html_escape value else [])"

definition render_paragraph :: "pystr \<Rightarrow> pystr" where
  "render_paragraph value =
     (if value = [] then [] else replace_char 10 (asc ''<br />'') (html_escape value))"

text \<open>
  Of an image path the page reads \<open>path.suffix\<close>, \<open>path.resolve().as_uri()\<close> and
  \<open>path.read_bytes()\<close>; the last two are \<open>None\<close> where Python raises \<open>OSError\<close>.
  A byte is a number below 256.
\<close>

record image_path =
  path_suffix :: pystr
  as_uri :: "pystr option"
  read_bytes :: "nat list option"

text \<open>The dataclass \<open>BridalEntry\<close>; its field \<open>back\<close> is \<open>back_image\<close> here.\<close>

record BridalEntry =
  slug :: pystr
  name :: pystr
  description :: pystr
  price :: pystr
  front :: image_path
  back_image :: image_path
  detail1 :: image_path
  detail2 :: image_path
  description_blocks :: "DescriptionBlock list"
  metadata_path :: "pystr list option"
  raw_metadata :: raw_meta

text \<open>\<open>base64.b64encode\<close>: three bytes give four characters, the rest is padded with \<open>=\<close>.\<close>

definition b64_char :: "nat \<Rightarrow> nat" where
  "b64_char i = asc ''ABCDEFGHIJKLMNOPQRSTUVWXYZabcdefghijklmnopqrstuvwxyz0123456789+/'' ! (i mod 64)"

fun b64encode :: "nat list \<Rightarrow> pystr" where
  "b64encode [] = []"
| "b64encode [a] = [b64_char (a div 4), b64_char ((a mod 4) * 16), 61, 61]"
| "b64encode [a, b] =
     [b64_char (a div 4), b64_char ((a mod 4) * 16 + b div 16), b64_char ((b mod 16) * 4), 61]"
| "b64encode (a # b # c # rest) =
     [b64_char (a div 4), b64_char ((a mod 4) * 16 + b div 16),
      b64_char ((b mod 16) * 4 + c div 64), b64_char (c mod 64)] @ b64encode rest"

text \<open>The resolver \<open>to_uri\<close> inside \<open>render_page\<close>.\<close>

definition to_uri :: "(pystr \<Rightarrow> pystr) \<Rightarrow> bool \<Rightarrow> image_path \<Rightarrow> pystr" where
  "to_uri lower use_file_uri path =
     (if use_file_uri then (case as_uri path of Some u \<Rightarrow> u | None \<Rightarrow> [])
      else
        (case read_bytes path of
           None \<Rightarrow> []
         | Some data \<Rightarrow>
             (let encoded = b64encode data;
                  stripped = strip_chars {46} (lower (path_suffix path));
                  suffix' = (if stripped \<noteq> [] then stripped else asc ''jpeg'')
              in asc ''data:image/'' @ suffix' @ asc '';base64,'' @ encoded)))"

text \<open>One card of \<open>_build_description_html\<close>; U+4EAE U+70B9 is the fallback heading.\<close>

definition block_card :: "DescriptionBlock \<Rightarrow> pystr" where
  "block_card block =
     asc ''<article><h3>''
       @ (if render_inline (title block) \<noteq> [] then render_inline (title block) else [20142, 28857])
       @ asc ''</h3><p>'' @ render_paragraph (content block) @ asc ''</p></article>''"

text \<open>The placeholder paragraph: U+6682 U+65E0 U+4ECB U+7ECD U+3002.\<close>

definition build_description_html :: "BridalEntry \<Rightarrow> pystr" where
  "build_description_html entry =
     (let blocks = (if description entry \<noteq> []
                    then [asc ''<p>'' @ render_paragraph (description entry) @ asc ''</p>'']
                    else []);
          blocks = (if description_blocks entry \<noteq> [] then
                      (let cards = concat (map block_card
                                     (filter (\<lambda>block. content block \<noteq> [])
                                             (description_blocks entry)))
                       in if cards \<noteq> []
                          then blocks @ [asc ''<div class='desc-grid'>'' @ cards @ asc ''</div>'']
                          else blocks)
                    else blocks)
      in if blocks = [] then asc ''<p>'' @ [26242, 26080, 20171, 32461, 12290] @ asc ''</p>''
         else concat blocks)"

text \<open>The fixed text of the page between the fields, in the order of the f-string.\<close>

definition page_part_0 :: pystr where
  \<open>page_part_0 =
   join [10]
     [[],
      asc ''        <style>'',
      asc ''        :root {'',
      asc ''            --ink:#35241a;'',
      asc ''            --accent:#c19273;'',
      asc ''            --veil:#faf3eb;'',
      asc ''        }'',
      asc ''        .page {'',
      asc ''            background:linear-gradient(135deg,#f9f3ec 0%,#f2e5d8 100%);'',
      asc ''            padding:1.8rem;'',
      asc ''            border-radius:26px;'',
      asc ''            display:grid;'',
      asc ''            grid-template-columns:minmax(0,38%) minmax(0,62%);'',
      asc ''            gap:1.2rem;'',
      asc ''            min-height:260px;'',
      asc ''            font-family:'Cormorant Garamond','Palatino Linotype','Times New Roman',serif;'',
      asc ''            color:var(--ink);'',
      asc ''            box-shadow:0 25px 55px rgba(54,34,17,0.12);'',
      asc ''        }'',
      asc ''        .info{display:flex;flex-direction:column;gap:0.9rem;min-height:100%;}'',
      asc ''        .info h2{margin:0;font-size:2.2rem;letter-spacing:0.08em;font-weight:500;}'',
      asc ''        .info p{margin:0 0 0.4rem;font-size:1.05rem;line-height:1.7;}'',
      asc ''        .tag{text-transform:uppercase;letter-spacing:0.5em;font-size:0.75rem;color:rgba(0,0,0,0.45);font-family:'Optima','Cormorant Garamond','Times New Roman',serif;}'',
      asc ''        .photos{display:grid;grid-template-columns:repeat(2,minmax(0,1fr));grid-template-rows:minmax(0,1fr) minmax(0,0.6fr);gap:0.7rem;}'',
      asc ''        figure{margin:0;border-radius:18px;overflow:hidden;position:relative;background:#dcd6cf;box-shadow:0 15px 40px rgba(0,0,0,0.12);}'',
      asc ''        figure img{width:100%;height:100%;object-fit:cover;display:block;}'',
      asc ''        figure figcaption{position:absolute;bottom:8px;left:14px;font-size:0.7rem;letter-spacing:0.2em;color:rgba(255,255,255,0.7);text-shadow:0 2px 6px rgba(0,0,0,0.45);}'',
      asc ''        .price{margin-top:auto;align-self:flex-end;font-size:1.5rem;color:var(--accent);letter-spacing:0.3em;text-transform:uppercase;font-weight:500;}'',
      asc ''        .desc-grid{display:grid;grid-template-columns:repeat(auto-fit,minmax(160px,1fr));gap:0.8rem;}'',
      asc ''        .desc-grid article{background:rgba(255,255,255,0.65);padding:0.9rem;border-radius:18px;box-shadow:0 12px 35px rgba(0,0,0,0.08);}'',
      asc ''        .desc-grid article h3{margin:0 0 0.5rem;font-size:0.9rem;letter-spacing:0.15em;color:var(--accent);text-transform:uppercase;}'',
      asc ''        .desc-grid article p{margin:0;font-size:0.95rem;line-height:1.6;}'',
      asc ''        </style>'',
      asc ''        <section class='page'>'',
      asc ''            <div class='info'>'',
      asc ''                <div>'',
      asc ''                    <div class='tag'>'']\<close>

definition page_part_1 :: pystr where
  \<open>page_part_1 =
   join [10]
     [asc ''</div>'',
      asc ''                    <h2>'']\<close>

definition page_part_2 :: pystr where
  \<open>page_part_2 =
   join [10]
     [asc ''</h2>'',
      asc ''                    '']\<close>

definition page_part_3 :: pystr where
  \<open>page_part_3 =
   join [10]
     [[],
      asc ''                </div>'',
      asc ''                <div class='price'>'' @ [20215, 26684] @ asc '' '' @ [165]]\<close>

definition page_part_4 :: pystr where
  \<open>page_part_4 =
   join [10]
     [asc ''</div>'',
      asc ''            </div>'',
      asc ''            <div class='photos'>'',
      asc ''                <figure><img src="'']\<close>

definition page_part_5 :: pystr where
  \<open>page_part_5 =
   asc ''" alt="''\<close>

definition page_part_6 :: pystr where
  \<open>page_part_6 =
   join [10]
     [asc '' '' @ [20027, 22270, 27491, 38754] @ asc ''" /></figure>'',
      asc ''                <figure><img src="'']\<close>

definition page_part_8 :: pystr where
  \<open>page_part_8 =
   join [10]
     [asc '' '' @ [20027, 22270, 32972, 38754] @ asc ''" /></figure>'',
      asc ''                <figure><img src="'']\<close>

definition page_part_10 :: pystr where
  \<open>page_part_10 =
   join [10]
     [asc '' '' @ [32454, 33410, 19968] @ asc ''" /><figcaption>DETAIL</figcaption></figure>'',
      asc ''                <figure><img src="'']\<close>

definition page_part_12 :: pystr where
  \<open>page_part_12 =
   join [10]
     [asc '' '' @ [32454, 33410, 20108] @ asc ''" /><figcaption>DETAIL</figcaption></figure>'',
      asc ''            </div>'',
      asc ''        </section>'',
      asc ''        '']\<close>

definition render_page :: "(pystr \<Rightarrow> pystr) \<Rightarrow> BridalEntry \<Rightarrow> bool \<Rightarrow> pystr" where
  "render_page lower entry use_file_uri =
     (let desc_html = build_description_html entry;
          slug_html = render_inline (slug entry);
          name_html = render_inline (name entry);
          price_html = render_inline (price entry);
          alt_name = render_inline (name entry)
      in page_part_0 @ slug_html @ page_part_1 @ name_html @ page_part_2 @ desc_html
         @ page_part_3 @ price_html
         @ page_part_4 @ to_uri lower use_file_uri (front entry) @ page_part_5 @ alt_name
         @ page_part_6 @ to_uri lower use_file_uri (back_image entry) @ page_part_5 @ alt_name
         @ page_part_8 @ to_uri lower use_file_uri (detail1 entry) @ page_part_5 @ alt_name
         @ page_part_10 @ to_uri lower use_file_uri (detail2 entry) @ page_part_5 @ alt_name
         @ page_part_12)"

section \<open>Loading the catalog\<close>

text \<open>
  What \<open>load_entries\<close> reads of one child of the template directory: its name, whether
  it is a directory, the two metadata files (\<open>None\<close> when the path does not exist) and
  the four image files (\<open>None\<close> when the path does not exist).
\<close>

record disk_file =
  file_uri :: "pystr option"
  file_bytes :: "nat list option"

record folder =
  folder_name :: pystr
  is_dir :: bool
  info_json :: "file_read option"
  info_txt :: "file_read option"
  img_front :: "disk_file option"
  img_back :: "disk_file option"
  img_detail1 :: "disk_file option"
  img_detail2 :: "disk_file option"

text \<open>The file names: U+4FE1 U+606F with \<open>.json\<close> or \<open>.txt\<close>, and the four images.\<close>

definition info_json_name :: pystr where
  "info_json_name = [20449, 24687] @ asc ''.json''"

definition info_txt_name :: pystr where
  "info_txt_name = [20449, 24687] @ asc ''.txt''"

definition front_name :: pystr where
  "front_name = [20027, 22270, 27491, 38754] @ asc ''.jpg''"

definition back_name :: pystr where
  "back_name = [20027, 22270, 32972, 38754] @ asc ''.jpg''"

definition detail1_name :: pystr where
  "detail1_name = [32454, 33410, 22270, 19968] @ asc ''.jpg''"

definition detail2_name :: pystr where
  "detail2_name = [32454, 33410, 22270, 20108] @ asc ''.jpg''"

text \<open>\<open>_load_metadata\<close>: the first of the two files that exists is parsed.\<close>

definition load_metadata ::
    "(pystr \<Rightarrow> loads_result) \<Rightarrow> (pystr \<Rightarrow> pystr) \<Rightarrow> (pystr \<Rightarrow> pystr) \<Rightarrow> folder
       \<Rightarrow> error + metadata \<times> pystr list \<times> raw_meta" where
  "load_metadata json_loads lower repr_str f =
     (case info_json f of
        Some rd \<Rightarrow>
          (case parse_metadata_file json_loads lower repr_str (asc ''.json'') rd of
             Inl e \<Rightarrow> Inl e
           | Inr (normalized, raw) \<Rightarrow> Inr (normalized, [folder_name f, info_json_name], raw))
      | None \<Rightarrow>
          (case info_txt f of
             Some rd \<Rightarrow>
               (case parse_metadata_file json_loads lower repr_str (asc ''.txt'') rd of
                  Inl e \<Rightarrow> Inl e
                | Inr (normalized, raw) \<Rightarrow> Inr (normalized, [folder_name f, info_txt_name], raw))
           | None \<Rightarrow> Inl MissingMetadataFile))"

text \<open>
  The body of the loop of \<open>load_entries\<close> for one child: it is passed over, or a warning
  is shown (a metadata error that is a \<open>ValueError\<close>, or the names of the missing
  images), or an entry is made, or an exception that is no \<open>ValueError\<close> leaves the
  function.
\<close>

datatype warning = MetadataWarning error | MissingImages "pystr list"

datatype loaded = Skipped | Warned warning | Entry BridalEntry | Crashed error

definition image_of :: "disk_file \<Rightarrow> image_path" where
  "image_of file = \<lparr>path_suffix = asc ''.jpg'', as_uri = file_uri file, read_bytes = file_bytes file\<rparr>"

definition load_folder ::
    "(pystr \<Rightarrow> loads_result) \<Rightarrow> (pystr \<Rightarrow> pystr) \<Rightarrow> (pystr \<Rightarrow> pystr) \<Rightarrow> folder \<Rightarrow> loaded" where
  "load_folder json_loads lower repr_str f =
     (if \<not> is_dir f \<or> folder_name f = [27169, 26495] \<or> startswith (folder_name f) (asc ''.'')
      then Skipped
      else
        (case load_metadata json_loads lower repr_str f of
           Inl e \<Rightarrow> (if is_value_error e then Warned (MetadataWarning e) else Crashed e)
         | Inr (metadata, meta_path, raw_meta) \<Rightarrow>
             (let name = (if md_name metadata \<noteq> [] then md_name metadata else folder_name f);
                  desc = md_description metadata;
                  price = md_price metadata;
                  desc_blocks = md_description_blocks metadata;
                  missing = map fst (filter (\<lambda>p. snd p = None)
                              [(front_name, img_front f), (back_name, img_back f),
                               (detail1_name, img_detail1 f), (detail2_name, img_detail2 f)])
              in if missing \<noteq> [] then Warned (MissingImages missing)
                 else
                   (case (img_front f, img_back f, img_detail1 f, img_detail2 f) of
                      (Some fr, Some bk, Some d1, Some d2) \<Rightarrow>
                        Entry \<lparr>slug = folder_name f, name = name, description = desc,
                               price = price, front = image_of fr, back_image = image_of bk,
                               detail1 = image_of d1, detail2 = image_of d2,
                               description_blocks = desc_blocks,
                               metadata_path = Some meta_path, raw_metadata = raw_meta\<rparr>
                    | _ \<Rightarrow> Warned (MissingImages missing)))))"

text \<open>
  The loop over the sorted children: the entries in order and the warnings, or the
  exception of the first child that raises one.
\<close>

fun load_entries ::
    "(pystr \<Rightarrow> loads_result) \<Rightarrow> (pystr \<Rightarrow> pystr) \<Rightarrow> (pystr \<Rightarrow> pystr) \<Rightarrow> folder list
       \<Rightarrow> error + BridalEntry list \<times> warning list" where
  "load_entries json_loads lower repr_str [] = Inr ([], [])"
| "load_entries json_loads lower repr_str (f # fs) =
     (case load_folder json_loads lower repr_str f of
        Crashed e \<Rightarrow> Inl e
      | Skipped \<Rightarrow> load_entries json_loads lower repr_str fs
      | Warned w \<Rightarrow>
          (case load_entries json_loads lower repr_str fs of
             Inl e \<Rightarrow> Inl e
           | Inr (entries, warnings) \<Rightarrow> Inr (entries, w # warnings))
      | Entry e \<Rightarrow>
          (case load_entries json_loads lower repr_str fs of
             Inl e' \<Rightarrow> Inl e'
           | Inr (entries, warnings) \<Rightarrow> Inr (e # entries, warnings)))"

text \<open>\<open>str.lower\<close> on ASCII text, the instance of \<open>lower\<close> in the examples.\<close>

definition ascii_lower :: "pystr \<Rightarrow> pystr" where
  "ascii_lower s = map (\<lambda>c. if 65 \<le> c \<and> c \<le> 90 then c + 32 else c) s"

section \<open>The specification's descriptions, for comparison with the loops\<close>

text \<open>
  The description table for a list, in the specification's words: the plain text is made
  of the string entries, trimmed, the empty ones left out, in order; the blocks come
  from the object entries, each mapped with its position in the list, in order.
\<close>

definition string_paragraphs :: "json list \<Rightarrow> pystr list" where
  "string_paragraphs items =
     filter (\<lambda>p. p \<noteq> [])
       (List.map_filter (\<lambda>v. case v of JStr s \<Rightarrow> Some (strip s) | _ \<Rightarrow> None) items)"

definition object_blocks :: "(pystr \<Rightarrow> pystr) \<Rightarrow> nat \<Rightarrow> json list \<Rightarrow> DescriptionBlock list" where
  "object_blocks repr_str start items =
     List.map_filter
       (\<lambda>iv. case snd iv of JDict m \<Rightarrow> block_from_mapping repr_str (snd iv) (Some (fst iv))
                           | _ \<Rightarrow> None)
       (List.enumerate start items)"

definition is_JStr :: "json \<Rightarrow> bool" where
  "is_JStr v = (case v of JStr s \<Rightarrow> True | _ \<Rightarrow> False)"

definition is_JDict :: "json \<Rightarrow> bool" where
  "is_JDict v = (case v of JDict m \<Rightarrow> True | _ \<Rightarrow> False)"

definition is_JList :: "json \<Rightarrow> bool" where
  "is_JList v = (case v of JList xs \<Rightarrow> True | _ \<Rightarrow> False)"

text \<open>
  Paragraphs in the specification's words: the maximal runs of consecutive non-blank
  lines, each run joined by single spaces; blank lines only separate.
\<close>

function runs :: "('a \<Rightarrow> bool) \<Rightarrow> 'a list \<Rightarrow> 'a list list" where
  "runs P [] = []"
| "runs P (x # xs) =
     (if P x then takeWhile P (x # xs) # runs P (dropWhile P xs) else runs P xs)"
  by pat_completeness auto
termination
  by (relation "measure (\<lambda>(P, xs). length xs)")
     (auto simp: less_Suc_eq_le length_dropWhile_le)

definition paragraphs_spec :: "pystr \<Rightarrow> pystr list" where
  "paragraphs_spec text =
     map (\<lambda>run. join (asc '' '') (map strip run))
         (runs (\<lambda>line. strip line \<noteq> []) (splitlines text))"

text \<open>
  The legacy format in the specification's words, over the trimmed lines of the text.
  The name and the price are what follows the label on the last line that carries it.
  The description starts at the last line with the description label and continues
  over the following lines up to the next line with a name or price label.
\<close>

definition last_labelled :: "pystr \<Rightarrow> pystr list \<Rightarrow> pystr option" where
  "last_labelled label lines =
     map_option (\<lambda>line. strip (drop (length label) line))
       (List.find (\<lambda>line. startswith line label) (rev lines))"

definition after_last_desc :: "pystr list \<Rightarrow> pystr list" where
  "after_last_desc lines =
     rev (takeWhile (\<lambda>line. \<not> startswith line label_desc) (rev lines))"

definition continuation :: "pystr list \<Rightarrow> pystr list" where
  "continuation lines =
     takeWhile (\<lambda>line. \<not> startswith line label_name \<and> \<not> startswith line label_price)
       (after_last_desc lines)"

definition legacy_spec :: "pystr \<Rightarrow> metadata" where
  "legacy_spec text =
     (let lines = map strip (splitlines text)
      in \<lparr>md_name = (case last_labelled label_name lines of Some n \<Rightarrow> n | None \<Rightarrow> []),
          md_price = (case last_labelled label_price lines of Some p \<Rightarrow> p | None \<Rightarrow> []),
          md_description =
            (case last_labelled label_desc lines of
               None \<Rightarrow> []
             | Some first \<Rightarrow> strip (join [10] (first # continuation lines))),
          md_description_blocks = []\<rparr>)"

text \<open>
  The state of the scan after a list of trimmed lines, in the same words: a continuation
  is active when a description line was seen and no name or price line after it.
\<close>

definition scan_state :: "pystr list \<Rightarrow> legacy_state" where
  "scan_state lines =
     \<lparr>ls_name = (case last_labelled label_name lines of Some n \<Rightarrow> n | None \<Rightarrow> []),
      ls_price = (case last_labelled label_price lines of Some p \<Rightarrow> p | None \<Rightarrow> []),
      description_lines =
        (case last_labelled label_desc lines of
           None \<Rightarrow> []
         | Some first \<Rightarrow> first # continuation lines),
      collecting_desc =
        (last_labelled label_desc lines \<noteq> None \<and>
         list_all (\<lambda>line. \<not> startswith line label_name \<and> \<not> startswith line label_price)
           (after_last_desc lines))\<rparr>"

text \<open>Whether a string has a line boundary of \<open>splitlines\<close> in it.\<close>

definition single_line :: "pystr \<Rightarrow> bool" where
  "single_line s = (\<forall>c \<in> set s. \<not> is_linebreak c)"

text \<open>What escaping does to one character: the five markup characters become entities.\<close>

definition escape_char :: "nat \<Rightarrow> pystr" where
  \<open>escape_char c =
     (if c = 38 then asc ''&amp;'' else if c = 60 then asc ''&lt;''
      else if c = 62 then asc ''&gt;'' else if c = 34 then asc ''&quot;''
      else if c = 39 then asc ''&#x27;'' else [c])\<close>

text \<open>
  The text from an opening angle bracket on never reads \<open><sc\<close>: no \<open>script\<close> tag opens.
\<close>

fun no_script_open :: "pystr \<Rightarrow> bool" where
  "no_script_open [] = True"
| "no_script_open (c # cs) =
     ((c = 60 \<longrightarrow> (case cs of a # b # _ \<Rightarrow> \<not> (a = 115 \<and> b = 99) | _ \<Rightarrow> False))
      \<and> no_script_open cs)"

text \<open>
  Escaping one field, in the specification's words: inline text is escaped character
  by character; paragraph text is escaped the same way with every newline turned into
  the line break tag.
\<close>

definition inline_text :: "pystr \<Rightarrow> pystr" where
  "inline_text v = concat (map escape_char v)"

definition paragraph_text :: "pystr \<Rightarrow> pystr" where
  "paragraph_text v = concat (map (\<lambda>c. if c = 10 then asc ''<br />'' else escape_char c) v)"

text \<open>
  The markup of one block and of the description as the specification words it: a
  heading with the escaped title, or the fallback U+4EAE U+70B9 for an empty title, and
  a paragraph with the content; the description paragraph when there is text, then the
  grid of the blocks that have content when there is one, and the placeholder when
  there is neither.
\<close>

definition card_markup :: "DescriptionBlock \<Rightarrow> pystr" where
  "card_markup block =
     asc ''<article><h3>''
       @ (if title block = [] then [20142, 28857] else inline_text (title block))
       @ asc ''</h3><p>'' @ paragraph_text (content block) @ asc ''</p></article>''"

definition description_markup :: "pystr \<Rightarrow> DescriptionBlock list \<Rightarrow> pystr" where
  "description_markup text blocks =
     (let paragraph = (if text = [] then []
                       else asc ''<p>'' @ paragraph_text text @ asc ''</p>'');
          cards = concat (map card_markup (filter (\<lambda>block. content block \<noteq> []) blocks));
          grid = (if cards = [] then []
                  else asc ''<div class='desc-grid'>'' @ cards @ asc ''</div>'')
      in if paragraph = [] \<and> grid = []
         then asc ''<p>'' @ [26242, 26080, 20171, 32461, 12290] @ asc ''</p>''
         else paragraph @ grid)"


text \<open>
  \<open>write_text(json.dumps(payload, ensure_ascii=False), encoding="utf-8")\<close> writes the
  strings of the tree as they are, and UTF-8 has no encoding for a lone surrogate
  (U+D800 to U+DFFF): with one in a key or a string of the tree the write raises
  \<open>UnicodeEncodeError\<close> and leaves the file empty.
\<close>

definition is_surrogate :: "nat \<Rightarrow> bool" where
  "is_surrogate c \<longleftrightarrow> 55296 \<le> c \<and> c \<le> 57343"

fun encodable :: "json \<Rightarrow> bool" where
  "encodable (JStr s) = (\<not> list_ex is_surrogate s)"
| "encodable (JList xs) = list_all encodable xs"
| "encodable (JDict d) =
     list_all (\<lambda>kv. \<not> list_ex is_surrogate (fst kv) \<and> encodable (snd kv)) d"
| "encodable v = True"

text \<open>
  Parsing a tree, writing it with the parsed fields unchanged, and parsing what was
  written. When the write succeeds, \<open>json.loads\<close> of the written text gives the written
  tree back, so the second parse reads that tree; when it fails, the second parse finds
  an empty file.
\<close>

definition reparse :: "(pystr \<Rightarrow> pystr) \<Rightarrow> json \<Rightarrow> error + metadata" where
  "reparse repr_str raw =
     (case normalize_metadata repr_str raw of
        Inl e \<Rightarrow> Inl e
      | Inr md \<Rightarrow>
          (let payload = prepare_json_payload (RawJson raw)
                           \<lparr>ed_name = md_name md, ed_price = md_price md,
                             ed_desc = md_description md\<rparr>
           in if encodable (JDict payload)
              then normalize_metadata repr_str (JDict payload)
              else Inl EmptyMetadata))"


section \<open>Evaluation rules\<close>

lemmas str_eval =
  asc_def strip_def lstrip_def rstrip_def is_space_def startswith_def strip_chars_def
  replace_char_def str_int_def point_title_def

lemmas dict_eval = dict_get_def dict_get_default_def py_or_def py_str_def

lemmas lines_eval = splitlines_def is_linebreak_def

section \<open>Object to block mapping\<close>

lemma find_truthy: "List.find truthy xs = Some v \<Longrightarrow> truthy v"
  by (induction xs) (auto split: if_splits)

lemma title_chain:
  "(if truthy (py_or a (py_or b c)) then f (py_or a (py_or b c)) else z) =
     (case List.find truthy [a, b, c] of None \<Rightarrow> z | Some v \<Rightarrow> f v)"
  by (simp add: py_or_def)

lemma content_chain:
  "py_or a (py_or b (py_or c (py_or d e))) =
     (case List.find truthy [a, b, c, d] of Some v \<Rightarrow> v | None \<Rightarrow> e)"
  by (simp add: py_or_def)

lemma block_from_mapping_unfold:
  "block_from_mapping repr_str (JDict m) idx =
     (case content_source m of
        None \<Rightarrow> None
      | Some c \<Rightarrow>
          if strip (py_str repr_str c) = [] then None
          else Some \<lparr>title =
                       (let t = (case title_source m of
                                   None \<Rightarrow> [] | Some v \<Rightarrow> strip (py_str repr_str v))
                        in if t = [] then (case idx of None \<Rightarrow> [] | Some i \<Rightarrow> point_title i)
                           else t),
                     content = strip (py_str repr_str c)\<rparr>)"
proof -
  define fc where "fc = List.find truthy
    (map (dict_get m) [asc ''text'', asc ''content'', asc ''desc'', asc ''description''])"
  define ft where "ft = List.find truthy
    (map (dict_get m) [asc ''title'', asc ''label'', asc ''name''])"
  have nn: "v \<noteq> JNull" if "fc = Some v" for v
    using find_truthy that unfolding fc_def by fastforce
  have C: "py_or (dict_get m (asc ''text'')) (py_or (dict_get m (asc ''content''))
            (py_or (dict_get m (asc ''desc'')) (py_or (dict_get m (asc ''description''))
              (dict_get m (asc ''value''))))) =
           (case fc of Some v \<Rightarrow> v | None \<Rightarrow> dict_get m (asc ''value''))"
    unfolding fc_def by (simp only: content_chain list.map)
  have T: "(if truthy (py_or (dict_get m (asc ''title''))
                 (py_or (dict_get m (asc ''label'')) (dict_get m (asc ''name''))))
            then strip (py_str repr_str (py_or (dict_get m (asc ''title''))
                 (py_or (dict_get m (asc ''label'')) (dict_get m (asc ''name'')))))
            else []) = (case ft of None \<Rightarrow> [] | Some v \<Rightarrow> strip (py_str repr_str v))"
    unfolding ft_def list.map
    by (rule title_chain [of "dict_get m (asc ''title'')" "dict_get m (asc ''label'')"
          "dict_get m (asc ''name'')" "\<lambda>v. strip (py_str repr_str v)" "[]"])
  have S: "content_source m = (case fc of Some v \<Rightarrow> Some v
             | None \<Rightarrow> (if dict_get m (asc ''value'') = JNull then None
                         else Some (dict_get m (asc ''value''))))"
    unfolding content_source_def fc_def ..
  have "block_from_mapping repr_str (JDict m) idx =
     (let content_raw = (case fc of Some v \<Rightarrow> v | None \<Rightarrow> dict_get m (asc ''value''))
      in if content_raw = JNull then None
         else if strip (py_str repr_str content_raw) = [] then None
         else Some \<lparr>title =
                (let t = (case ft of None \<Rightarrow> [] | Some v \<Rightarrow> strip (py_str repr_str v))
                 in if t = [] \<and> idx \<noteq> None then point_title (the idx) else t),
              content = strip (py_str repr_str content_raw)\<rparr>)"
    unfolding block_from_mapping_def json.case Let_def C T ..
  also have "\<dots> = (case content_source m of
        None \<Rightarrow> None
      | Some c \<Rightarrow>
          if strip (py_str repr_str c) = [] then None
          else Some \<lparr>title =
                       (let t = (case ft of
                                   None \<Rightarrow> [] | Some v \<Rightarrow> strip (py_str repr_str v))
                        in if t = [] then (case idx of None \<Rightarrow> [] | Some i \<Rightarrow> point_title i)
                           else t),
                     content = strip (py_str repr_str c)\<rparr>)"
    unfolding S by (cases fc; cases idx) (simp_all add: Let_def nn)
  finally show ?thesis unfolding title_source_def ft_def .
qed

text \<open>
  C3, as amended. The title is taken from the first of \<open>title\<close>, \<open>label\<close>, \<open>name\<close> whose
  value is true in Python's sense (not null, false, zero or empty), the content from the
  first such value among \<open>text\<close>, \<open>content\<close>, \<open>desc\<close>, \<open>description\<close>, else from the
  non-null value under \<open>value\<close>; both are stringified and trimmed. There is no block
  exactly when there is no such content value or it trims to empty. The title is the
  positional default when the trimmed title is empty and a position is supplied, and
  the empty string when it is empty and no position is supplied.
\<close>

theorem block_from_mapping_first_truthy:
  "block_from_mapping repr_str (JDict m) idx =
     (case content_source m of
        None \<Rightarrow> None
      | Some c \<Rightarrow>
          if strip (py_str repr_str c) = [] then None
          else Some \<lparr>title =
                       (let t = (case title_source m of
                                   None \<Rightarrow> [] | Some v \<Rightarrow> strip (py_str repr_str v))
                        in if t = [] then (case idx of None \<Rightarrow> [] | Some i \<Rightarrow> point_title i)
                           else t),
                     content = strip (py_str repr_str c)\<rparr>)
   \<and> (block_from_mapping repr_str (JDict m) idx = None \<longleftrightarrow>
         content_source m = None \<or>
         (\<exists>c. content_source m = Some c \<and> strip (py_str repr_str c) = []))"
proof
  show "block_from_mapping repr_str (JDict m) idx =
     (case content_source m of
        None \<Rightarrow> None
      | Some c \<Rightarrow>
          if strip (py_str repr_str c) = [] then None
          else Some \<lparr>title =
                       (let t = (case title_source m of
                                   None \<Rightarrow> [] | Some v \<Rightarrow> strip (py_str repr_str v))
                        in if t = [] then (case idx of None \<Rightarrow> [] | Some i \<Rightarrow> point_title i)
                           else t),
                     content = strip (py_str repr_str c)\<rparr>)"
    by (rule block_from_mapping_unfold)
  show "block_from_mapping repr_str (JDict m) idx = None \<longleftrightarrow>
         content_source m = None \<or>
         (\<exists>c. content_source m = Some c \<and> strip (py_str repr_str c) = [])"
    unfolding block_from_mapping_unfold by (cases "content_source m") simp_all
qed

theorem block_from_mapping_first_truthy_witness:
  "block_from_mapping id
     (JDict [(asc ''title'', JStr (asc '' '')), (asc ''text'', JInt 0),
             (asc ''content'', JStr (asc ''silk ''))]) (Some 2)
   = Some \<lparr>title = [35201, 28857, 32, 51], content = asc ''silk''\<rparr>"
  using block_from_mapping_first_truthy [of id
     "[(asc ''title'', JStr (asc '' '')), (asc ''text'', JInt 0),
       (asc ''content'', JStr (asc ''silk ''))]" "Some 2"]
  by (simp add: content_source_def title_source_def str_eval dict_eval str_nat.simps)

text \<open>
  C3 as stated fails: with an empty \<open>title\<close> and a \<open>label\<close>, the first present title
  key is \<open>title\<close>, but the source takes the label.
\<close>

theorem block_from_mapping_first_present_counterexample:
  "block_from_mapping id
     (JDict [(asc ''title'', JStr []), (asc ''label'', JStr (asc ''L'')),
             (asc ''text'', JStr (asc ''c''))]) None
     = Some \<lparr>title = asc ''L'', content = asc ''c''\<rparr>
   \<and> block_from_mapping_spec id
     [(asc ''title'', JStr []), (asc ''label'', JStr (asc ''L'')),
      (asc ''text'', JStr (asc ''c''))] None
     = Some \<lparr>title = [], content = asc ''c''\<rparr>"
  by (simp add: block_from_mapping_def block_from_mapping_spec_def first_present_def
        List.map_filter_def str_eval dict_eval)

section \<open>The description table\<close>

lemma coerce_desc_items_eq:
  "coerce_desc_items repr_str idx items paragraphs blocks =
     (paragraphs @ string_paragraphs items, blocks @ object_blocks repr_str idx items)"
proof (induction items arbitrary: idx paragraphs blocks)
  case Nil
  then show ?case by (simp add: string_paragraphs_def object_blocks_def)
next
  case (Cons item rest)
  show ?case
    by (cases item)
       (simp_all add: Cons.IH string_paragraphs_def object_blocks_def Let_def
          split: option.splits)
qed

lemma string_paragraphs_none:
  "\<forall>v \<in> set items. \<not> is_JStr v \<Longrightarrow> string_paragraphs items = []"
  by (induction items) (auto simp: string_paragraphs_def is_JStr_def split: json.splits)

lemma object_blocks_none:
  "\<forall>v \<in> set items. \<not> is_JDict v \<Longrightarrow> object_blocks repr_str i items = []"
  by (induction items arbitrary: i) (auto simp: object_blocks_def is_JDict_def split: json.splits)

lemma string_paragraphs_strings:
  "string_paragraphs (map JStr ss) = filter (\<lambda>p. p \<noteq> []) (map strip ss)"
  by (induction ss) (auto simp: string_paragraphs_def)

lemma coerce_desc_value_list:
  "coerce_desc_value repr_str (JList items) =
     (join [10] (string_paragraphs items), object_blocks repr_str 0 items)"
  by (simp add: coerce_desc_value_def coerce_desc_items_eq)

text \<open>
  C2. The description normalizer follows the shape table: null, which is also what an
  absent key reads as, gives no text and no blocks; a string its trim; a number and a
  boolean (the only other scalar) their stringification; a list the trimmed non-empty
  string entries joined by newlines and the blocks of its object entries, each mapped
  with its position in the list, in list order, so that a list of strings has no blocks
  and a list of objects no text; a single object gives no text and the one block it
  maps to, if any.
\<close>

theorem coerce_desc_value_table:
  "coerce_desc_value repr_str JNull = ([], [])
   \<and> (k \<notin> set (map fst d) \<longrightarrow> coerce_desc_value repr_str (dict_get d k) = ([], []))
   \<and> coerce_desc_value repr_str (JStr s) = (strip s, [])
   \<and> coerce_desc_value repr_str (JInt i) = (str_int i, [])
   \<and> coerce_desc_value repr_str (JFloat r) = (r, [])
   \<and> coerce_desc_value repr_str (JBool b) = (if b then asc ''True'' else asc ''False'', [])
   \<and> coerce_desc_value repr_str (JList items) =
       (join [10] (string_paragraphs items), object_blocks repr_str 0 items)
   \<and> coerce_desc_value repr_str (JList (map JStr ss)) =
       (join [10] (filter (\<lambda>p. p \<noteq> []) (map strip ss)), [])
   \<and> ((\<forall>v \<in> set items. is_JDict v) \<longrightarrow> fst (coerce_desc_value repr_str (JList items)) = [])
   \<and> coerce_desc_value repr_str (JDict m) =
       ([], case block_from_mapping repr_str (JDict m) None of
              Some block \<Rightarrow> [block] | None \<Rightarrow> [])"
proof -
  have strings: "coerce_desc_value repr_str (JList (map JStr ss)) =
       (join [10] (filter (\<lambda>p. p \<noteq> []) (map strip ss)), [])"
    unfolding coerce_desc_value_list string_paragraphs_strings
    by (simp add: object_blocks_none is_JDict_def)
  have objects: "fst (coerce_desc_value repr_str (JList items)) = []"
    if "\<forall>v \<in> set items. is_JDict v"
  proof -
    from that have "\<forall>v \<in> set items. \<not> is_JStr v"
      by (auto simp: is_JDict_def is_JStr_def split: json.splits)
    then show ?thesis
      unfolding coerce_desc_value_list by (simp add: string_paragraphs_none)
  qed
  have absent: "coerce_desc_value repr_str (dict_get d k) = ([], [])" if "k \<notin> set (map fst d)"
  proof -
    from that have "map_of d k = None" by (simp add: map_of_eq_None_iff)
    then show ?thesis
      by (simp add: dict_get_def dict_get_default_def coerce_desc_value_def)
  qed
  have scalars: "coerce_desc_value repr_str JNull = ([], [])"
      "coerce_desc_value repr_str (JStr s) = (strip s, [])"
      "coerce_desc_value repr_str (JInt i) = (str_int i, [])"
      "coerce_desc_value repr_str (JFloat r) = (r, [])"
      "coerce_desc_value repr_str (JBool b) = (if b then asc ''True'' else asc ''False'', [])"
    by (simp_all add: coerce_desc_value_def py_str_def)
  have single: "coerce_desc_value repr_str (JDict m) =
       ([], case block_from_mapping repr_str (JDict m) None of
              Some block \<Rightarrow> [block] | None \<Rightarrow> [])"
    by (simp add: coerce_desc_value_def split: option.splits)
  from scalars absent coerce_desc_value_list strings objects single show ?thesis
    by blast
qed

theorem coerce_desc_value_table_witness:
  "asc ''description'' \<notin> set (map fst [(asc ''name'', JStr (asc ''A''))])
   \<and> coerce_desc_value id (dict_get [(asc ''name'', JStr (asc ''A''))] (asc ''description''))
       = ([], [])
   \<and> list_all is_JDict [JDict [(asc ''text'', JStr (asc ''lace''))]]
   \<and> fst (coerce_desc_value id (JList [JDict [(asc ''text'', JStr (asc ''lace''))]])) = []
   \<and> coerce_desc_value id
       (JList [JStr (asc '' a ''), JDict [(asc ''text'', JStr (asc ''lace''))], JStr (asc ''b'')])
     = ([97, 10, 98], [\<lparr>title = [35201, 28857, 32, 50], content = asc ''lace''\<rparr>])"
proof -
  have h: "\<forall>v \<in> set [JDict [(asc ''text'', JStr (asc ''lace''))]]. is_JDict v"
    by (simp add: is_JDict_def)
  have k: "asc ''description'' \<notin> set (map fst [(asc ''name'', JStr (asc ''A''))])"
    by (simp add: asc_def)
  note t0 = coerce_desc_value_table
    [where repr_str = id and d = "[(asc ''name'', JStr (asc ''A''))]" and k = "asc ''description''"]
  from t0 k have z: "coerce_desc_value id
      (dict_get [(asc ''name'', JStr (asc ''A''))] (asc ''description'')) = ([], [])"
    by blast
  note t1 = coerce_desc_value_table
    [where repr_str = id and items = "[JDict [(asc ''text'', JStr (asc ''lace''))]]"]
  note t2 = coerce_desc_value_table
    [where repr_str = id
       and items = "[JStr (asc '' a ''), JDict [(asc ''text'', JStr (asc ''lace''))],
                     JStr (asc ''b'')]"]
  have a: "fst (coerce_desc_value id (JList [JDict [(asc ''text'', JStr (asc ''lace''))]])) = []"
    using t1 h by blast
  have "coerce_desc_value id
       (JList [JStr (asc '' a ''), JDict [(asc ''text'', JStr (asc ''lace''))], JStr (asc ''b'')])
     = (join [10] (string_paragraphs
          [JStr (asc '' a ''), JDict [(asc ''text'', JStr (asc ''lace''))], JStr (asc ''b'')]),
        object_blocks id 0
          [JStr (asc '' a ''), JDict [(asc ''text'', JStr (asc ''lace''))], JStr (asc ''b'')])"
    using t2 by blast
  also have "\<dots> = ([97, 10, 98], [\<lparr>title = [35201, 28857, 32, 50], content = asc ''lace''\<rparr>])"
    by (simp add: string_paragraphs_def object_blocks_def block_from_mapping_def
          str_eval dict_eval str_nat.simps Let_def)
  finally show ?thesis using h a k z by (simp add: list_all_iff)
qed


section \<open>Writing back a structured file\<close>

lemma runs_leading:
  "runs P xs = (if takeWhile P xs \<noteq> [] then [takeWhile P xs] else []) @ runs P (dropWhile P xs)"
  by (cases xs) auto

lemma split_paragraphs_loop_eq:
  "split_paragraphs_loop lines blocks current =
     blocks
     @ (if current @ map strip (takeWhile (\<lambda>l. strip l \<noteq> []) lines) \<noteq> []
        then [join (asc '' '') (current @ map strip (takeWhile (\<lambda>l. strip l \<noteq> []) lines))]
        else [])
     @ map (\<lambda>run. join (asc '' '') (map strip run))
         (runs (\<lambda>l. strip l \<noteq> []) (dropWhile (\<lambda>l. strip l \<noteq> []) lines))"
proof (induction lines arbitrary: blocks current)
  case Nil
  then show ?case by simp
next
  case (Cons line rest)
  show ?case
  proof (cases "strip line \<noteq> []")
    case True
    then show ?thesis by (simp add: Cons.IH)
  next
    case False
    then show ?thesis
      using runs_leading [of "\<lambda>l. strip l \<noteq> []" rest]
      by (simp add: Cons.IH)
  qed
qed

lemma split_paragraphs_spec: "split_paragraphs text = paragraphs_spec text"
proof (cases "text = []")
  case True
  then show ?thesis by (simp add: split_paragraphs_def paragraphs_spec_def splitlines_def)
next
  case False
  then show ?thesis
    using runs_leading [of "\<lambda>l. strip l \<noteq> []" "splitlines text"]
    by (simp add: split_paragraphs_def paragraphs_spec_def split_paragraphs_loop_eq)
qed

lemma map_of_dict_set: "map_of (dict_set d k v) = (map_of d)(k \<mapsto> v)"
  by (induction d) auto

lemma dict_get_dict_set:
  "dict_get (dict_set d k v) k' = (if k' = k then v else dict_get d k')"
  by (simp add: dict_get_def dict_get_default_def map_of_dict_set)

lemma keys_dict_set: "set (map fst (dict_set d k v)) = insert k (set (map fst d))"
proof -
  have "dom (map_of (dict_set d k v)) = insert k (dom (map_of d))"
    by (simp add: map_of_dict_set)
  then show ?thesis by (simp add: dom_map_of_conv_image_fst)
qed

lemma filter_dict_set:
  "k \<in> K \<Longrightarrow> filter (\<lambda>kv. fst kv \<notin> K) (dict_set d k v) = filter (\<lambda>kv. fst kv \<notin> K) d"
  by (induction d) auto

lemma convert_desc_for_json_spec:
  "convert_desc_for_json existing text =
     (if is_JList existing then JList (map JStr (paragraphs_spec (strip text)))
      else JStr (strip text))"
  by (cases existing) (simp_all add: convert_desc_for_json_def is_JList_def split_paragraphs_spec)

lemma edited_keys_distinct:
  "asc ''name'' \<noteq> asc ''price''" "asc ''name'' \<noteq> asc ''description''"
  "asc ''name'' \<noteq> asc ''desc''" "asc ''price'' \<noteq> asc ''description''"
  "asc ''price'' \<noteq> asc ''desc''" "asc ''description'' \<noteq> asc ''desc''"
  by (simp_all add: asc_def)

lemma prepare_json_payload_lookup:
  "filter (\<lambda>kv. fst kv \<notin> {asc ''name'', asc ''price'', asc ''description'', asc ''desc''})
          (prepare_json_payload (RawJson (JDict d)) data)
     = filter (\<lambda>kv. fst kv \<notin> {asc ''name'', asc ''price'', asc ''description'', asc ''desc''}) d
   \<and> (\<forall>k. k \<notin> {asc ''name'', asc ''price'', asc ''description'', asc ''desc''} \<longrightarrow>
          map_of (prepare_json_payload (RawJson (JDict d)) data) k = map_of d k)
   \<and> map_of (prepare_json_payload (RawJson (JDict d)) data) (asc ''name'')
       = Some (JStr (ed_name data))
   \<and> map_of (prepare_json_payload (RawJson (JDict d)) data) (asc ''price'')
       = Some (JStr (ed_price data))
   \<and> map_of (prepare_json_payload (RawJson (JDict d)) data) (asc ''description'')
       = Some (if is_JList (dict_get d (asc ''description''))
               then JList (map JStr (paragraphs_spec (strip (ed_desc data))))
               else JStr (strip (ed_desc data)))
   \<and> map_of (prepare_json_payload (RawJson (JDict d)) data) (asc ''desc'')
       = (if asc ''desc'' \<in> set (map fst d) then Some (JStr (ed_desc data)) else None)"
proof -
  let ?K = "{asc ''name'', asc ''price'', asc ''description'', asc ''desc''}"
  define p1 where "p1 = dict_set d (asc ''name'') (JStr (ed_name data))"
  define p2 where "p2 = dict_set p1 (asc ''price'') (JStr (ed_price data))"
  define p3 where "p3 = dict_set p2 (asc ''description'')
                      (convert_desc_for_json (dict_get p2 (asc ''description'')) (ed_desc data))"
  define p4 where "p4 = (if asc ''desc'' \<in> set (map fst p3)
                     then dict_set p3 (asc ''desc'') (JStr (ed_desc data)) else p3)"
  have P: "prepare_json_payload (RawJson (JDict d)) data = p4"
    by (simp add: prepare_json_payload_def Let_def p1_def p2_def p3_def p4_def)
  have g: "dict_get p2 (asc ''description'') = dict_get d (asc ''description'')"
    by (simp add: p2_def p1_def dict_get_dict_set edited_keys_distinct
          edited_keys_distinct [symmetric])
  have k3: "asc ''desc'' \<in> set (map fst p3) \<longleftrightarrow> asc ''desc'' \<in> set (map fst d)"
    unfolding p3_def p2_def p1_def keys_dict_set
    by (simp add: edited_keys_distinct edited_keys_distinct [symmetric])
  have m3: "map_of p3 = (map_of d)(asc ''name'' \<mapsto> JStr (ed_name data),
              asc ''price'' \<mapsto> JStr (ed_price data),
              asc ''description'' \<mapsto> convert_desc_for_json (dict_get d (asc ''description''))
                                        (ed_desc data))"
    unfolding p3_def g unfolding p2_def p1_def by (simp add: map_of_dict_set)
  have m4: "map_of p4 = (if asc ''desc'' \<in> set (map fst d)
                         then (map_of p3)(asc ''desc'' \<mapsto> JStr (ed_desc data)) else map_of p3)"
    unfolding p4_def k3 by (simp add: map_of_dict_set)
  have absent: "map_of d (asc ''desc'') = None" if "asc ''desc'' \<notin> set (map fst d)"
    using that by (simp add: map_of_eq_None_iff)
  have f1: "filter (\<lambda>kv. fst kv \<notin> ?K) p1 = filter (\<lambda>kv. fst kv \<notin> ?K) d"
    unfolding p1_def by (rule filter_dict_set) simp
  have f2: "filter (\<lambda>kv. fst kv \<notin> ?K) p2 = filter (\<lambda>kv. fst kv \<notin> ?K) p1"
    unfolding p2_def by (rule filter_dict_set) simp
  have f3: "filter (\<lambda>kv. fst kv \<notin> ?K) p3 = filter (\<lambda>kv. fst kv \<notin> ?K) p2"
    unfolding p3_def by (rule filter_dict_set) simp
  have f4: "filter (\<lambda>kv. fst kv \<notin> ?K) p4 = filter (\<lambda>kv. fst kv \<notin> ?K) p3"
  proof (cases "asc ''desc'' \<in> set (map fst p3)")
    case True
    have "filter (\<lambda>kv. fst kv \<notin> ?K) (dict_set p3 (asc ''desc'') (JStr (ed_desc data)))
            = filter (\<lambda>kv. fst kv \<notin> ?K) p3"
      by (rule filter_dict_set) simp
    with True show ?thesis unfolding p4_def by simp
  next
    case False
    then show ?thesis unfolding p4_def by simp
  qed
  have f: "filter (\<lambda>kv. fst kv \<notin> ?K) p4 = filter (\<lambda>kv. fst kv \<notin> ?K) d"
    using f1 f2 f3 f4 by simp
  have others: "\<forall>k. k \<notin> ?K \<longrightarrow> map_of p4 k = map_of d k"
    unfolding m4 m3 by simp
  have n: "map_of p4 (asc ''name'') = Some (JStr (ed_name data))"
    unfolding m4 m3 by (simp add: edited_keys_distinct edited_keys_distinct [symmetric])
  have pr: "map_of p4 (asc ''price'') = Some (JStr (ed_price data))"
    unfolding m4 m3 by (simp add: edited_keys_distinct edited_keys_distinct [symmetric])
  have de: "map_of p4 (asc ''description'')
       = Some (if is_JList (dict_get d (asc ''description''))
               then JList (map JStr (paragraphs_spec (strip (ed_desc data))))
               else JStr (strip (ed_desc data)))"
    unfolding m4 m3 convert_desc_for_json_spec
    by (simp add: edited_keys_distinct edited_keys_distinct [symmetric])
  have ds: "map_of p4 (asc ''desc'')
       = (if asc ''desc'' \<in> set (map fst d) then Some (JStr (ed_desc data)) else None)"
    unfolding m4 m3 using absent
    by (simp add: edited_keys_distinct edited_keys_distinct [symmetric])
  from f others n pr de ds show ?thesis unfolding P by blast
qed







section \<open>Trimming\<close>

lemma rstrip_prefix: "\<exists>w. u = rstrip u @ w"
proof -
  have "rev u = takeWhile is_space (rev u) @ dropWhile is_space (rev u)" by simp
  then have "u = rev (dropWhile is_space (rev u)) @ rev (takeWhile is_space (rev u))"
    by (metis rev_append rev_rev_ident)
  then show ?thesis unfolding rstrip_def by blast
qed

lemma lstrip_strip: "lstrip (strip s) = strip s"
proof (cases "strip s")
  case Nil
  then show ?thesis by (simp add: lstrip_def)
next
  case (Cons x xs)
  obtain w where w: "lstrip s = rstrip (lstrip s) @ w" using rstrip_prefix by blast
  with Cons have u: "lstrip s = x # xs @ w" by (simp add: strip_def)
  then have "\<not> is_space x"
    unfolding lstrip_def by (metis hd_dropWhile list.distinct(1) list.sel(1))
  with Cons show ?thesis by (simp add: lstrip_def)
qed

lemma rstrip_idem: "rstrip (rstrip u) = rstrip u"
  by (simp add: rstrip_def)

lemma strip_idem: "strip (strip s) = strip s"
proof -
  have "strip (strip s) = rstrip (strip s)" by (simp add: strip_def [of "strip s"] lstrip_strip)
  also have "\<dots> = strip s" by (simp add: strip_def rstrip_idem)
  finally show ?thesis .
qed

lemma strip_Nil: "strip [] = []"
  by (simp add: strip_def lstrip_def rstrip_def)

section \<open>The legacy format\<close>

lemma after_first_label:
  assumes "startswith line [a, b, c]" "a \<noteq> c" "b \<noteq> c"
  shows "after_first c line = Some (drop (length [a, b, c]) line)"
proof -
  define r where "r = drop (length [a, b, c]) line"
  have "line = [a, b, c] @ r"
    using assms(1) unfolding startswith_def r_def by (metis append_take_drop_id)
  then have "after_first c line = Some r"
    using assms(2,3) by simp
  then show ?thesis unfolding r_def .
qed

lemma after_first_labels:
  "startswith line label_name \<Longrightarrow>
     after_first fullwidth_colon line = Some (drop (length label_name) line)"
  "startswith line label_desc \<Longrightarrow>
     after_first fullwidth_colon line = Some (drop (length label_desc) line)"
  "startswith line label_price \<Longrightarrow>
     after_first fullwidth_colon line = Some (drop (length label_price) line)"
  unfolding label_name_def label_desc_def label_price_def fullwidth_colon_def
  by (rule after_first_label; simp)+

lemma labels_exclusive:
  "startswith line label_name \<Longrightarrow> \<not> startswith line label_desc"
  "startswith line label_name \<Longrightarrow> \<not> startswith line label_price"
  "startswith line label_desc \<Longrightarrow> \<not> startswith line label_price"
  "startswith line label_desc \<Longrightarrow> \<not> startswith line label_name"
  "startswith line label_price \<Longrightarrow> \<not> startswith line label_name"
  "startswith line label_price \<Longrightarrow> \<not> startswith line label_desc"
  by (auto simp: startswith_def label_name_def label_desc_def label_price_def)

lemma blank_unlabelled:
  "\<not> startswith [] label_name" "\<not> startswith [] label_desc" "\<not> startswith [] label_price"
  by (simp_all add: startswith_def label_name_def label_desc_def label_price_def)


lemma legacy_line_step:
  "legacy_line raw st =
     Inr (let line = strip raw
          in if startswith line label_name then
               st\<lparr>ls_name := strip (drop (length label_name) line), collecting_desc := False\<rparr>
             else if startswith line label_desc then
               st\<lparr>description_lines := [strip (drop (length label_desc) line)],
                  collecting_desc := True\<rparr>
             else if startswith line label_price then
               st\<lparr>ls_price := strip (drop (length label_price) line), collecting_desc := False\<rparr>
             else if collecting_desc st then
               st\<lparr>description_lines := description_lines st @ [line]\<rparr>
             else st)"
proof (cases "strip raw = []")
  case True
  then show ?thesis by (simp add: legacy_line_def blank_unlabelled)
next
  case False
  then show ?thesis by (simp add: legacy_line_def Let_def after_first_labels)
qed

lemma legacy_lines_snoc:
  "legacy_lines (ls @ [l]) st =
     (case legacy_lines ls st of Inl e \<Rightarrow> Inl e | Inr st' \<Rightarrow> legacy_line l st')"
  by (induction ls arbitrary: st) (auto split: sum.splits)

lemma last_labelled_snoc:
  "last_labelled label (lines @ [l]) =
     (if startswith l label then Some (strip (drop (length label) l))
      else last_labelled label lines)"
  by (simp add: last_labelled_def)

lemma after_last_desc_snoc:
  "after_last_desc (lines @ [l]) =
     (if startswith l label_desc then [] else after_last_desc lines @ [l])"
  by (simp add: after_last_desc_def)

lemma continuation_snoc:
  "continuation (lines @ [l]) =
     (if startswith l label_desc then []
      else if list_all (\<lambda>line. \<not> startswith line label_name \<and> \<not> startswith line label_price)
                (after_last_desc lines)
              \<and> \<not> startswith l label_name \<and> \<not> startswith l label_price
           then continuation lines @ [l]
      else continuation lines)"
proof (cases "startswith l label_desc")
  case True
  then show ?thesis by (simp add: continuation_def after_last_desc_snoc)
next
  case nd: False
  let ?N = "\<lambda>line. \<not> startswith line label_name \<and> \<not> startswith line label_price"
  define A where "A = after_last_desc lines"
  have c: "continuation lines = takeWhile ?N A"
    by (simp add: continuation_def A_def)
  have c': "continuation (lines @ [l]) = takeWhile ?N (A @ [l])"
    using nd by (simp add: continuation_def after_last_desc_snoc A_def)
  show ?thesis
  proof (cases "list_all ?N A")
    case True
    then have all: "\<forall>x \<in> set A. ?N x" by (simp add: list_all_iff)
    then have app: "takeWhile ?N (A @ [l]) = A @ takeWhile ?N [l]"
      by (intro takeWhile_append2) blast
    from all have tA: "takeWhile ?N A = A" by simp
    have "continuation (lines @ [l]) = continuation lines @ takeWhile ?N [l]"
      unfolding c c' app tA ..
    with True nd show ?thesis unfolding A_def [symmetric] by simp
  next
    case False
    then obtain x where "x \<in> set A" "\<not> ?N x"
      by (auto simp: list_all_iff)
    then have "takeWhile ?N (A @ [l]) = takeWhile ?N A"
      by (rule takeWhile_append1)
    with False nd c c' show ?thesis unfolding A_def [symmetric] by simp
  qed
qed

lemma scan_state_snoc:
  "legacy_line raw (scan_state lines) = Inr (scan_state (lines @ [strip raw]))"
proof -
  let ?l = "strip raw"
  let ?st = "scan_state lines"
  note snoc = scan_state_def last_labelled_snoc continuation_snoc after_last_desc_snoc
  consider (n) "startswith ?l label_name" | (d) "startswith ?l label_desc"
    | (p) "startswith ?l label_price"
    | (u) "\<not> startswith ?l label_name" "\<not> startswith ?l label_desc"
          "\<not> startswith ?l label_price"
    by blast
  then show ?thesis
  proof cases
    case n
    with labels_exclusive(1,2) [of ?l]
    have "legacy_line raw ?st =
        Inr (?st\<lparr>ls_name := strip (drop (length label_name) ?l), collecting_desc := False\<rparr>)"
      by (simp add: legacy_line_step)
    also have "?st\<lparr>ls_name := strip (drop (length label_name) ?l), collecting_desc := False\<rparr>
        = scan_state (lines @ [?l])"
      using n labels_exclusive(1,2) [of ?l]
      by (cases "last_labelled label_desc lines") (simp_all add: snoc)
    finally show ?thesis .
  next
    case d
    with labels_exclusive(3,4) [of ?l]
    have "legacy_line raw ?st =
        Inr (?st\<lparr>description_lines := [strip (drop (length label_desc) ?l)],
                  collecting_desc := True\<rparr>)"
      by (simp add: legacy_line_step)
    also have "?st\<lparr>description_lines := [strip (drop (length label_desc) ?l)],
                  collecting_desc := True\<rparr>
        = scan_state (lines @ [?l])"
      using d labels_exclusive(3,4) [of ?l] by (simp add: snoc)
    finally show ?thesis .
  next
    case p
    with labels_exclusive(5,6) [of ?l]
    have "legacy_line raw ?st =
        Inr (?st\<lparr>ls_price := strip (drop (length label_price) ?l), collecting_desc := False\<rparr>)"
      by (simp add: legacy_line_step)
    also have "?st\<lparr>ls_price := strip (drop (length label_price) ?l), collecting_desc := False\<rparr>
        = scan_state (lines @ [?l])"
      using p labels_exclusive(5,6) [of ?l]
      by (cases "last_labelled label_desc lines") (simp_all add: snoc)
    finally show ?thesis .
  next
    case u
    then have "legacy_line raw ?st =
        Inr (if collecting_desc ?st
             then ?st\<lparr>description_lines := description_lines ?st @ [?l]\<rparr> else ?st)"
      by (simp add: legacy_line_step)
    also have "(if collecting_desc ?st
             then ?st\<lparr>description_lines := description_lines ?st @ [?l]\<rparr> else ?st)
        = scan_state (lines @ [?l])"
      using u by (cases "last_labelled label_desc lines") (simp_all add: snoc)
    finally show ?thesis .
  qed
qed

lemma scan_state_Nil:
  "scan_state [] = \<lparr>ls_name = [], ls_price = [], description_lines = [], collecting_desc = False\<rparr>"
  by (simp add: scan_state_def last_labelled_def)

lemma legacy_lines_scan:
  "legacy_lines ls (scan_state []) = Inr (scan_state (map strip ls))"
proof (induction ls rule: rev_induct)
  case Nil
  then show ?case by simp
next
  case (snoc l ls)
  then show ?case by (simp add: legacy_lines_snoc scan_state_snoc)
qed

lemma last_labelled_stripped: "last_labelled label lines = Some v \<Longrightarrow> strip v = v"
  by (auto simp: last_labelled_def strip_idem)

lemma continuation_subset: "set (continuation lines) \<subseteq> set lines"
proof -
  have "set (continuation lines) \<subseteq> set (after_last_desc lines)"
    unfolding continuation_def by (auto dest: set_takeWhileD)
  also have "\<dots> \<subseteq> set lines"
    unfolding after_last_desc_def using set_takeWhileD by fastforce
  finally show ?thesis .
qed

lemma description_lines_stripped:
  "p \<in> set (description_lines (scan_state (map strip ls))) \<Longrightarrow> strip p = p"
proof (cases "last_labelled label_desc (map strip ls)")
  case None
  assume "p \<in> set (description_lines (scan_state (map strip ls)))"
  with None show ?thesis by (simp add: scan_state_def)
next
  case (Some first)
  assume "p \<in> set (description_lines (scan_state (map strip ls)))"
  with Some have "p = first \<or> p \<in> set (continuation (map strip ls))"
    by (simp add: scan_state_def)
  then show ?thesis
  proof
    assume "p = first"
    with Some show ?thesis by (simp add: last_labelled_stripped)
  next
    assume "p \<in> set (continuation (map strip ls))"
    with continuation_subset have "p \<in> set (map strip ls)" by blast
    then show ?thesis by (auto simp: strip_idem)
  qed
qed

lemma parse_legacy_metadata_spec: "parse_legacy_metadata text = Inr (legacy_spec text)"
proof -
  let ?st = "scan_state (map strip (splitlines text))"
  have "filter (\<lambda>part. strip part \<noteq> [] \<or> part = []) (description_lines ?st)
          = description_lines ?st"
    by (rule filter_True) (auto dest: description_lines_stripped)
  moreover have "legacy_lines (splitlines text)
       \<lparr>ls_name = [], ls_price = [], description_lines = [], collecting_desc = False\<rparr>
       = Inr ?st"
    using legacy_lines_scan [of "splitlines text"] by (simp only: scan_state_Nil)
  ultimately show ?thesis
    by (cases "last_labelled label_desc (map strip (splitlines text))")
       (simp_all add: parse_legacy_metadata_def legacy_spec_def scan_state_def strip_Nil Let_def)
qed



lemma legacy_example:
  "parse_legacy_metadata
     (strip (label_name @ asc ''X'' @ [10] @ label_desc @ asc ''hello'' @ [10] @ asc ''world''
             @ [10] @ label_price @ asc ''9'' @ [10]))
   = Inr \<lparr>md_name = asc ''X'', md_price = asc ''9'',
          md_description = asc ''hello'' @ [10] @ asc ''world'', md_description_blocks = []\<rparr>"
  by (simp add: parse_legacy_metadata_def legacy_line_def str_eval lines_eval
        label_name_def label_desc_def label_price_def fullwidth_colon_def)

text \<open>
  C6. Legacy parsing never fails and returns what the specification describes: the name
  and the price are what follows the labels U+540D U+79F0 U+FF1A and U+4EF7 U+683C U+FF1A
  on the last line carrying them; the description starts after the label U+4ECB U+7ECD
  U+FF1A and continues over the following lines, blank ones included, up to the next
  name or price line or the end; a line without a label outside a continuation changes
  nothing; there are never description blocks. The file of the specification's example
  parses to name \<open>X\<close>, price \<open>9\<close> and description \<open>hello\<close>, newline, \<open>world\<close>.
\<close>

theorem parse_legacy_metadata_labels:
  "parse_legacy_metadata text = Inr (legacy_spec text)
   \<and> md_description_blocks (legacy_spec text) = []
   \<and> (\<not> startswith (strip raw_line) label_name \<and> \<not> startswith (strip raw_line) label_desc
        \<and> \<not> startswith (strip raw_line) label_price \<and> \<not> collecting_desc st
      \<longrightarrow> legacy_line raw_line st = Inr st)
   \<and> parse_legacy_metadata
        (strip (label_name @ asc ''X'' @ [10] @ label_desc @ asc ''hello'' @ [10] @ asc ''world''
                @ [10] @ label_price @ asc ''9'' @ [10]))
      = Inr \<lparr>md_name = asc ''X'', md_price = asc ''9'',
             md_description = asc ''hello'' @ [10] @ asc ''world'', md_description_blocks = []\<rparr>"
proof -
  have "md_description_blocks (legacy_spec text) = []"
    by (simp add: legacy_spec_def Let_def)
  moreover have "legacy_line raw_line st = Inr st"
    if "\<not> startswith (strip raw_line) label_name \<and> \<not> startswith (strip raw_line) label_desc
        \<and> \<not> startswith (strip raw_line) label_price \<and> \<not> collecting_desc st"
    using that by (simp add: legacy_line_step)
  ultimately show ?thesis
    using parse_legacy_metadata_spec [of "text"] legacy_example by blast
qed

theorem parse_legacy_metadata_labels_witness:
  "\<not> collecting_desc \<lparr>ls_name = asc ''X'', ls_price = [], description_lines = [asc ''d''],
                        collecting_desc = False\<rparr>
   \<and> \<not> startswith (strip (asc '' note '')) label_name
   \<and> \<not> startswith (strip (asc '' note '')) label_desc
   \<and> \<not> startswith (strip (asc '' note '')) label_price
   \<and> legacy_line (asc '' note '')
        \<lparr>ls_name = asc ''X'', ls_price = [], description_lines = [asc ''d''],
          collecting_desc = False\<rparr>
      = Inr \<lparr>ls_name = asc ''X'', ls_price = [], description_lines = [asc ''d''],
             collecting_desc = False\<rparr>
   \<and> parse_legacy_metadata (label_name @ asc ''X'' @ [10] @ asc ''note'' @ [10] @ label_desc @ asc ''a''
        @ [10, 10] @ asc ''b'' @ [10] @ label_price @ asc ''9'' @ [10] @ asc ''late'')
      = Inr \<lparr>md_name = asc ''X'', md_price = asc ''9'',
             md_description = asc ''a'' @ [10, 10] @ asc ''b'', md_description_blocks = []\<rparr>"
proof -
  let ?st = "\<lparr>ls_name = asc ''X'', ls_price = [], description_lines = [asc ''d''],
              collecting_desc = False\<rparr>"
  let ?text = "label_name @ asc ''X'' @ [10] @ asc ''note'' @ [10] @ label_desc @ asc ''a''
        @ [10, 10] @ asc ''b'' @ [10] @ label_price @ asc ''9'' @ [10] @ asc ''late''"
  have h: "\<not> startswith (strip (asc '' note '')) label_name
           \<and> \<not> startswith (strip (asc '' note '')) label_desc
           \<and> \<not> startswith (strip (asc '' note '')) label_price \<and> \<not> collecting_desc ?st"
    by (simp add: str_eval label_name_def label_desc_def label_price_def)
  note t = parse_legacy_metadata_labels [of ?text "asc '' note ''" ?st]
  from t h have a: "legacy_line (asc '' note '') ?st = Inr ?st" by blast
  from t have "parse_legacy_metadata ?text = Inr (legacy_spec ?text)" by blast
  also have "legacy_spec ?text = \<lparr>md_name = asc ''X'', md_price = asc ''9'',
             md_description = asc ''a'' @ [10, 10] @ asc ''b'', md_description_blocks = []\<rparr>"
    by (simp add: legacy_spec_def last_labelled_def continuation_def after_last_desc_def
          str_eval lines_eval label_name_def label_desc_def label_price_def Let_def)
  finally show ?thesis using h a by blast
qed



section \<open>Errors of parsing\<close>


lemma parse_metadata_file_unfold:
  "parse_metadata_file json_loads lower repr_str sfx (Text t) =
     (if strip t = [] then Inl EmptyMetadata
      else if lower sfx = asc ''.json'' \<or> startswith (strip t) (asc ''{'') then
        (case json_loads (strip t) of
           JSONDecodeError msg \<Rightarrow> Inl (MalformedJson msg)
         | ValueError msg \<Rightarrow> Inl (JsonValueError msg)
         | RecursionError \<Rightarrow> Inl JsonRecursionError
         | Parsed raw \<Rightarrow>
             (case normalize_metadata repr_str raw of
                Inl e \<Rightarrow> Inl e
              | Inr md \<Rightarrow> Inr (md, RawJson raw)))
      else Inr (legacy_spec (strip t), RawText (strip t)))"
  by (simp add: parse_metadata_file_def Let_def lstrip_strip parse_legacy_metadata_spec)






section \<open>Writing a legacy file\<close>

lemma splitlines_from_line:
  "single_line s \<Longrightarrow>
     splitlines_from False cur (s @ 10 # rest) = (cur @ s) # splitlines_from False [] rest"
  by (induction s arbitrary: cur) (simp_all add: single_line_def is_linebreak_def)

lemma single_line_append: "single_line (a @ b) \<longleftrightarrow> single_line a \<and> single_line b"
  by (auto simp: single_line_def)

lemma single_line_labels: "single_line label_name" "single_line label_desc" "single_line label_price"
  by (simp_all add: single_line_def is_linebreak_def label_name_def label_desc_def label_price_def)

lemma splitlines_three:
  assumes "single_line a" "single_line b" "single_line c"
  shows "splitlines (a @ [10] @ b @ [10] @ c @ [10]) = [a, b, c]"
  using assms by (simp add: splitlines_def splitlines_from_line)

lemma splitlines_four:
  assumes "single_line a" "single_line b" "single_line b'" "single_line c"
  shows "splitlines (a @ [10] @ (b @ [10] @ b') @ [10] @ c @ [10]) = [a, b, b', c]"
  using assms by (simp add: splitlines_def splitlines_from_line)

text \<open>
  C7. The legacy writer emits the name label and the name, a newline, the description
  label and the description, a newline, the price label and the price, and a final
  newline, whatever the fields are. With fields of one line each these are exactly
  three labelled lines in the order name, description, price. A description of two
  lines is written as it is after the one description label: its second line follows
  without a label. This text is what is written to every path whose lowered extension
  is not \<open>.json\<close>.
\<close>

theorem build_legacy_text_lines:
  "build_legacy_text data =
     label_name @ ed_name data @ [10] @ label_desc @ ed_desc data @ [10]
       @ label_price @ ed_price data @ [10]
   \<and> last (build_legacy_text data) = 10
   \<and> (single_line (ed_name data) \<and> single_line (ed_desc data) \<and> single_line (ed_price data) \<longrightarrow>
        splitlines (build_legacy_text data) =
          [label_name @ ed_name data, label_desc @ ed_desc data, label_price @ ed_price data])
   \<and> (single_line (ed_name data) \<and> single_line d1 \<and> single_line d2 \<and> single_line (ed_price data)
        \<and> ed_desc data = d1 @ [10] @ d2 \<longrightarrow>
        splitlines (build_legacy_text data) =
          [label_name @ ed_name data, label_desc @ d1, d2, label_price @ ed_price data])
   \<and> (lower sfx \<noteq> asc ''.json'' \<longrightarrow>
        write_metadata lower sfx data raw = TextFile (build_legacy_text data))"
proof -
  have three: "splitlines (build_legacy_text data) =
          [label_name @ ed_name data, label_desc @ ed_desc data, label_price @ ed_price data]"
    if "single_line (ed_name data) \<and> single_line (ed_desc data) \<and> single_line (ed_price data)"
    using splitlines_three [of "label_name @ ed_name data" "label_desc @ ed_desc data"
        "label_price @ ed_price data"] that
    by (simp add: build_legacy_text_def single_line_append single_line_labels)
  have four: "splitlines (build_legacy_text data) =
          [label_name @ ed_name data, label_desc @ d1, d2, label_price @ ed_price data]"
    if "single_line (ed_name data) \<and> single_line d1 \<and> single_line d2 \<and> single_line (ed_price data)
        \<and> ed_desc data = d1 @ [10] @ d2"
    using splitlines_four [of "label_name @ ed_name data" "label_desc @ d1" d2
        "label_price @ ed_price data"] that
    by (simp add: build_legacy_text_def single_line_append single_line_labels)
  have "last (build_legacy_text data) = 10"
    by (simp add: build_legacy_text_def)
  with three four show ?thesis
    by (simp add: build_legacy_text_def write_metadata_def)
qed

theorem build_legacy_text_lines_witness:
  "ascii_lower (asc ''.txt'') \<noteq> asc ''.json''
   \<and> write_metadata ascii_lower (asc ''.txt'')
         \<lparr>ed_name = asc ''Gown'', ed_price = asc ''900'', ed_desc = asc ''lace''\<rparr> RawNone
       = TextFile (label_name @ asc ''Gown'' @ [10] @ label_desc @ asc ''lace'' @ [10]
                   @ label_price @ asc ''900'' @ [10])
   \<and> single_line (asc ''Gown'') \<and> single_line (asc ''lace'') \<and> single_line (asc ''silk'')
   \<and> single_line (asc ''900'')
   \<and> splitlines (build_legacy_text \<lparr>ed_name = asc ''Gown'', ed_price = asc ''900'',
                                     ed_desc = asc ''lace''\<rparr>)
       = [label_name @ asc ''Gown'', label_desc @ asc ''lace'', label_price @ asc ''900'']
   \<and> splitlines (build_legacy_text \<lparr>ed_name = asc ''Gown'', ed_price = asc ''900'',
                                     ed_desc = asc ''lace'' @ [10] @ asc ''silk''\<rparr>)
       = [label_name @ asc ''Gown'', label_desc @ asc ''lace'', asc ''silk'',
          label_price @ asc ''900'']"
proof -
  have h: "single_line (asc ''Gown'')" "single_line (asc ''lace'')" "single_line (asc ''silk'')"
    "single_line (asc ''900'')"
    by (simp_all add: single_line_def is_linebreak_def asc_def)
  let ?one = "\<lparr>ed_name = asc ''Gown'', ed_price = asc ''900'', ed_desc = asc ''lace''\<rparr>"
  let ?two = "\<lparr>ed_name = asc ''Gown'', ed_price = asc ''900'',
               ed_desc = asc ''lace'' @ [10] @ asc ''silk''\<rparr>"
  note t1 = build_legacy_text_lines
    [of ?one "asc ''lace''" "asc ''silk''" ascii_lower "asc ''.txt''" RawNone]
  note t2 = build_legacy_text_lines
    [of ?two "asc ''lace''" "asc ''silk''" ascii_lower "asc ''.txt''" RawNone]
  have h0: "ascii_lower (asc ''.txt'') \<noteq> asc ''.json''"
    by (simp add: ascii_lower_def asc_def)
  from t1 h0 have "write_metadata ascii_lower (asc ''.txt'') ?one RawNone
      = TextFile (build_legacy_text ?one)"
    by blast
  then have w: "write_metadata ascii_lower (asc ''.txt'') ?one RawNone
       = TextFile (label_name @ asc ''Gown'' @ [10] @ label_desc @ asc ''lace'' @ [10]
                   @ label_price @ asc ''900'' @ [10])"
    by (simp add: build_legacy_text_def)
  have h1: "single_line (ed_name ?one) \<and> single_line (ed_desc ?one) \<and> single_line (ed_price ?one)"
    using h by simp
  have h2: "single_line (ed_name ?two) \<and> single_line (asc ''lace'') \<and> single_line (asc ''silk'')
      \<and> single_line (ed_price ?two) \<and> ed_desc ?two = asc ''lace'' @ [10] @ asc ''silk''"
    using h by simp
  from t1 h1 have "splitlines (build_legacy_text ?one)
       = [label_name @ ed_name ?one, label_desc @ ed_desc ?one, label_price @ ed_price ?one]"
    by blast
  then have a: "splitlines (build_legacy_text ?one)
       = [label_name @ asc ''Gown'', label_desc @ asc ''lace'', label_price @ asc ''900'']"
    by simp
  from t2 h2 have "splitlines (build_legacy_text ?two)
       = [label_name @ ed_name ?two, label_desc @ asc ''lace'', asc ''silk'',
          label_price @ ed_price ?two]"
    by blast
  then have b: "splitlines (build_legacy_text ?two)
       = [label_name @ asc ''Gown'', label_desc @ asc ''lace'', asc ''silk'',
          label_price @ asc ''900'']"
    by simp
  from h0 w h a b show ?thesis by blast
qed



section \<open>Escaping\<close>

lemma no_script_open_append:
  "no_script_open xs \<Longrightarrow> no_script_open ys \<Longrightarrow> no_script_open (xs @ ys)"
  by (induction xs) (auto split: list.splits)

lemma no_script_open_join:
  "list_all no_script_open ls \<Longrightarrow> no_script_open (join [10] ls)"
  by (induction "[10::nat]" ls rule: join.induct) (simp_all add: no_script_open_append)

lemma no_script_open_plain: "60 \<notin> set xs \<Longrightarrow> no_script_open xs"
  by (induction xs) auto

lemma page_parts_safe:
  "no_script_open page_part_0" "no_script_open page_part_1" "no_script_open page_part_2"
  "no_script_open page_part_3" "no_script_open page_part_4" "no_script_open page_part_5"
  "no_script_open page_part_6" "no_script_open page_part_8" "no_script_open page_part_10"
  "no_script_open page_part_12"
  unfolding page_part_0_def page_part_1_def page_part_2_def page_part_3_def page_part_4_def
    page_part_5_def page_part_6_def page_part_8_def page_part_10_def page_part_12_def
  by ((rule no_script_open_join)?, simp add: asc_def)+


lemma replace_char_append:
  "replace_char old new (a @ b) = replace_char old new a @ replace_char old new b"
  by (simp add: replace_char_def)

lemma html_escape_Nil: "html_escape [] = []"
  by (simp add: html_escape_def replace_char_def)

lemma html_escape_append: "html_escape (a @ b) = html_escape a @ html_escape b"
  by (simp add: html_escape_def replace_char_append)

lemma html_escape_single: "html_escape [c] = escape_char c"
  by (simp add: html_escape_def replace_char_def escape_char_def asc_def)

lemma html_escape_Cons: "html_escape (c # s) = escape_char c @ html_escape s"
  using html_escape_append [of "[c]" s] by (simp add: html_escape_single)

lemma html_escape_chars: "html_escape s = concat (map escape_char s)"
  by (induction s) (simp_all add: html_escape_Nil html_escape_Cons)

lemma escape_char_inert: "set (escape_char c) \<inter> {60, 62, 34, 39} = {}"
  by (simp add: escape_char_def asc_def)

lemma html_escape_inert: "set (html_escape s) \<inter> {60, 62, 34, 39} = {}"
  unfolding html_escape_chars using escape_char_inert by auto

lemma render_inline_chars: "render_inline v = concat (map escape_char v)"
  by (cases v) (simp_all add: render_inline_def html_escape_chars)

lemma paragraph_char:
  "replace_char 10 (asc ''<br />'') (escape_char c) =
     (if c = 10 then asc ''<br />'' else escape_char c)"
  by (simp add: escape_char_def replace_char_def asc_def)

lemma render_paragraph_chars:
  "render_paragraph v =
     concat (map (\<lambda>c. if c = 10 then asc ''<br />'' else escape_char c) v)"
proof -
  have "replace_char 10 (asc ''<br />'') (html_escape v) =
     concat (map (\<lambda>c. if c = 10 then asc ''<br />'' else escape_char c) v)"
    by (induction v)
       (simp_all add: html_escape_Nil html_escape_Cons replace_char_append paragraph_char,
        simp add: replace_char_def)
  then show ?thesis by (cases v) (simp_all add: render_paragraph_def)
qed


lemma no_script_open_concat:
  "(\<And>x. x \<in> set xs \<Longrightarrow> no_script_open x) \<Longrightarrow> no_script_open (concat xs)"
  by (induction xs) (simp_all add: no_script_open_append)

lemma render_inline_safe: "no_script_open (render_inline v)"
proof -
  have "60 \<notin> set (html_escape v)" using html_escape_inert [of v] by auto
  then show ?thesis by (simp add: render_inline_def no_script_open_plain)
qed

lemma escape_char_safe: "no_script_open (escape_char c)"
  using escape_char_inert [of c] by (intro no_script_open_plain) auto

lemma render_paragraph_safe: "no_script_open (render_paragraph v)"
proof -
  have br: "no_script_open (asc ''<br />'')" by (simp add: asc_def)
  show ?thesis
    unfolding render_paragraph_chars
    by (intro no_script_open_concat) (auto simp: br escape_char_safe)
qed

lemma block_card_safe: "no_script_open (block_card block)"
proof -
  have "no_script_open (asc ''<article><h3>'')" "no_script_open (asc ''</h3><p>'')"
    "no_script_open (asc ''</p></article>'')" "no_script_open [20142, 28857]"
    by (simp_all add: asc_def)
  then show ?thesis
    by (simp add: block_card_def no_script_open_append render_inline_safe render_paragraph_safe)
qed

lemma build_description_html_safe: "no_script_open (build_description_html entry)"
proof -
  have fixed: "no_script_open (asc ''<p>'')" "no_script_open (asc ''</p>'')"
    "no_script_open (asc ''<div class='desc-grid'>'')" "no_script_open (asc ''</div>'')"
    "no_script_open [26242, 26080, 20171, 32461, 12290]"
    by (simp_all add: asc_def)
  have cards: "no_script_open (concat (map block_card bs))" for bs
    by (intro no_script_open_concat) (auto simp: block_card_safe)
  show ?thesis
    unfolding build_description_html_def Let_def
    by (simp add: no_script_open_append fixed cards render_paragraph_safe)
qed

lemma no_script_open_sublist:
  "no_script_open xs \<Longrightarrow> \<not> sublist (asc ''<script'') xs"
proof
  assume safe: "no_script_open xs" and "sublist (asc ''<script'') xs"
  then obtain ps ss where "xs = ps @ asc ''<script'' @ ss"
    by (auto simp: sublist_def)
  then have xs: "xs = ps @ 60 # 115 # 99 # (asc ''ript'' @ ss)"
    by (simp add: asc_def)
  have "\<not> no_script_open (ps @ 60 # 115 # 99 # r)" for r
    by (induction ps) simp_all
  with safe xs show False by blast
qed

lemma render_page_safe:
  assumes "60 \<notin> set (to_uri lower use_file_uri (front entry))"
    "60 \<notin> set (to_uri lower use_file_uri (back_image entry))"
    "60 \<notin> set (to_uri lower use_file_uri (detail1 entry))"
    "60 \<notin> set (to_uri lower use_file_uri (detail2 entry))"
  shows "no_script_open (render_page lower entry use_file_uri)"
  unfolding render_page_def Let_def
  by (intro no_script_open_append page_parts_safe render_inline_safe
        build_description_html_safe no_script_open_plain assms)


lemma script_example:
  "render_paragraph (asc ''<script>alert(1)</script>'' @ [10] @ asc ''a'')
     = asc ''&lt;script&gt;alert(1)&lt;/script&gt;<br />a''"
  by (simp add: render_paragraph_def html_escape_def replace_char_def asc_def)


lemma render_inline_text: "render_inline v = inline_text v"
  by (simp add: inline_text_def render_inline_chars)

lemma render_paragraph_text: "render_paragraph v = paragraph_text v"
  by (simp add: paragraph_text_def render_paragraph_chars)

lemma escape_char_nonempty: "escape_char c \<noteq> []"
  by (simp add: escape_char_def asc_def)

lemma inline_text_empty: "inline_text v = [] \<longleftrightarrow> v = []"
  by (cases v) (simp_all add: inline_text_def escape_char_nonempty)

lemma block_card_markup: "block_card block = card_markup block"
  by (simp add: block_card_def card_markup_def render_inline_text render_paragraph_text
        inline_text_empty)

lemma opening_nonempty: "asc ''<p>'' @ s \<noteq> []" "asc ''<div class='desc-grid'>'' @ s \<noteq> []"
  by (simp_all add: asc_def)

lemma build_description_html_markup:
  "build_description_html entry =
     description_markup (description entry) (description_blocks entry)"
proof -
  have cards: "map block_card bs = map card_markup bs" for bs
    by (simp add: block_card_markup)
  have none: "filter (\<lambda>block. content block \<noteq> []) [] = []" by simp
  show ?thesis
    unfolding build_description_html_def description_markup_def Let_def cards
      render_paragraph_text
    by (cases "description_blocks entry = []")
       (auto simp: opening_nonempty simp del: append_is_Nil_conv Nil_is_append_conv)
qed

lemma render_page_markup:
  "render_page lower entry use_file_uri =
     page_part_0 @ inline_text (slug entry) @ page_part_1 @ inline_text (name entry)
     @ page_part_2 @ description_markup (description entry) (description_blocks entry)
     @ page_part_3 @ inline_text (price entry)
     @ page_part_4 @ to_uri lower use_file_uri (front entry)
     @ page_part_5 @ inline_text (name entry)
     @ page_part_6 @ to_uri lower use_file_uri (back_image entry)
     @ page_part_5 @ inline_text (name entry)
     @ page_part_8 @ to_uri lower use_file_uri (detail1 entry)
     @ page_part_5 @ inline_text (name entry)
     @ page_part_10 @ to_uri lower use_file_uri (detail2 entry)
     @ page_part_5 @ inline_text (name entry)
     @ page_part_12"
  unfolding render_page_def Let_def render_inline_text build_description_html_markup ..


lemma description_example:
  "build_description_html
     \<lparr>slug = asc ''s'', name = asc ''n'',
       description = asc ''<script>alert(1)</script>'' @ [10] @ asc ''a'',
       price = asc ''1'',
       front = \<lparr>path_suffix = asc ''.jpg'', as_uri = None, read_bytes = None\<rparr>,
       back_image = \<lparr>path_suffix = asc ''.jpg'', as_uri = None, read_bytes = None\<rparr>,
       detail1 = \<lparr>path_suffix = asc ''.jpg'', as_uri = None, read_bytes = None\<rparr>,
       detail2 = \<lparr>path_suffix = asc ''.jpg'', as_uri = None, read_bytes = None\<rparr>,
       description_blocks =
         [\<lparr>title = asc ''<b>'', content = asc ''x'' @ [10] @ asc ''y''\<rparr>,
          \<lparr>title = [], content = asc ''z''\<rparr>,
          \<lparr>title = asc ''t'', content = []\<rparr>],
       metadata_path = None, raw_metadata = RawNone\<rparr>
   = asc ''<p>&lt;script&gt;alert(1)&lt;/script&gt;<br />a</p>''
     @ asc ''<div class='desc-grid'>''
     @ asc ''<article><h3>&lt;b&gt;</h3><p>x<br />y</p></article>''
     @ asc ''<article><h3>'' @ [20142, 28857] @ asc ''</h3><p>z</p></article>''
     @ asc ''</div>''"
  by (simp add: build_description_html_def block_card_def render_inline_def
        render_paragraph_def html_escape_def replace_char_def asc_def)

text \<open>
  C8. Every text field reaches the page escaped. The page is its fixed text with, at
  the places of the slug, the name (once as heading and four times as image
  alternative) and the price, the field rendered character by character with the five
  markup characters replaced by entities, and at the place of the description its
  markup: the description text in a paragraph and every block that has content as a
  card with its title (or the fallback heading) and its content, each escaped the same
  way, the text and the contents with every newline turned into the line break tag. So
  an inline field holds no angle bracket and no quote; whatever the entry holds, no
  \<open>script\<close> tag opens in the description markup, nor in the page when the four image
  references hold no opening angle bracket; and a \<open>script\<close> payload with a newline
  comes out as entities and a line break tag.
\<close>

theorem render_escapes_text:
  "render_inline v = concat (map escape_char v)
   \<and> set (render_inline v) \<inter> {60, 62, 34, 39} = {}
   \<and> render_paragraph v = concat (map (\<lambda>c. if c = 10 then asc ''<br />'' else escape_char c) v)
   \<and> \<not> sublist (asc ''<script'') (build_description_html entry)
   \<and> (60 \<notin> set (to_uri lower use_file_uri (front entry))
        \<and> 60 \<notin> set (to_uri lower use_file_uri (back_image entry))
        \<and> 60 \<notin> set (to_uri lower use_file_uri (detail1 entry))
        \<and> 60 \<notin> set (to_uri lower use_file_uri (detail2 entry))
      \<longrightarrow> \<not> sublist (asc ''<script'') (render_page lower entry use_file_uri))
   \<and> render_paragraph (asc ''<script>alert(1)</script>'' @ [10] @ asc ''a'')
       = asc ''&lt;script&gt;alert(1)&lt;/script&gt;<br />a''
   \<and> build_description_html entry =
       description_markup (description entry) (description_blocks entry)
   \<and> render_page lower entry use_file_uri =
       page_part_0 @ inline_text (slug entry) @ page_part_1 @ inline_text (name entry)
       @ page_part_2 @ description_markup (description entry) (description_blocks entry)
       @ page_part_3 @ inline_text (price entry)
       @ page_part_4 @ to_uri lower use_file_uri (front entry)
       @ page_part_5 @ inline_text (name entry)
       @ page_part_6 @ to_uri lower use_file_uri (back_image entry)
       @ page_part_5 @ inline_text (name entry)
       @ page_part_8 @ to_uri lower use_file_uri (detail1 entry)
       @ page_part_5 @ inline_text (name entry)
       @ page_part_10 @ to_uri lower use_file_uri (detail2 entry)
       @ page_part_5 @ inline_text (name entry)
       @ page_part_12
   \<and> build_description_html
       \<lparr>slug = asc ''s'', name = asc ''n'',
         description = asc ''<script>alert(1)</script>'' @ [10] @ asc ''a'',
         price = asc ''1'',
         front = \<lparr>path_suffix = asc ''.jpg'', as_uri = None, read_bytes = None\<rparr>,
         back_image = \<lparr>path_suffix = asc ''.jpg'', as_uri = None, read_bytes = None\<rparr>,
         detail1 = \<lparr>path_suffix = asc ''.jpg'', as_uri = None, read_bytes = None\<rparr>,
         detail2 = \<lparr>path_suffix = asc ''.jpg'', as_uri = None, read_bytes = None\<rparr>,
         description_blocks =
           [\<lparr>title = asc ''<b>'', content = asc ''x'' @ [10] @ asc ''y''\<rparr>,
            \<lparr>title = [], content = asc ''z''\<rparr>,
            \<lparr>title = asc ''t'', content = []\<rparr>],
         metadata_path = None, raw_metadata = RawNone\<rparr>
     = asc ''<p>&lt;script&gt;alert(1)&lt;/script&gt;<br />a</p>''
       @ asc ''<div class='desc-grid'>''
       @ asc ''<article><h3>&lt;b&gt;</h3><p>x<br />y</p></article>''
       @ asc ''<article><h3>'' @ [20142, 28857] @ asc ''</h3><p>z</p></article>''
       @ asc ''</div>''"
proof -
  have inert: "set (render_inline v) \<inter> {60, 62, 34, 39} = {}"
    using html_escape_inert [of v] by (simp add: render_inline_def)
  have page: "\<not> sublist (asc ''<script'') (render_page lower entry use_file_uri)"
    if "60 \<notin> set (to_uri lower use_file_uri (front entry))
        \<and> 60 \<notin> set (to_uri lower use_file_uri (back_image entry))
        \<and> 60 \<notin> set (to_uri lower use_file_uri (detail1 entry))
        \<and> 60 \<notin> set (to_uri lower use_file_uri (detail2 entry))"
    using that by (intro no_script_open_sublist render_page_safe) simp_all
  have desc: "\<not> sublist (asc ''<script'') (build_description_html entry)"
    by (intro no_script_open_sublist build_description_html_safe)
  note fields = render_inline_chars [of v] render_paragraph_chars [of v] script_example
  note markup = build_description_html_markup [of entry]
    render_page_markup [of lower entry use_file_uri] description_example
  show ?thesis
    by (intro conjI impI; (rule fields inert desc markup | (rule page, assumption)))
qed

theorem render_escapes_text_witness:
  "\<not> sublist (asc ''<script'')
       (render_page ascii_lower
          \<lparr>slug = asc ''<script>s'', name = asc ''<script>n'', description = asc ''<script>d'',
            price = asc ''<script>p'',
            front = \<lparr>path_suffix = asc ''.jpg'', as_uri = None, read_bytes = Some [77, 97, 110]\<rparr>,
            back_image = \<lparr>path_suffix = asc ''.jpg'', as_uri = None, read_bytes = None\<rparr>,
            detail1 = \<lparr>path_suffix = asc ''.jpg'', as_uri = None, read_bytes = None\<rparr>,
            detail2 = \<lparr>path_suffix = asc ''.jpg'', as_uri = None, read_bytes = None\<rparr>,
            description_blocks = [\<lparr>title = asc ''<script>t'', content = asc ''<script>c''\<rparr>],
            metadata_path = None, raw_metadata = RawNone\<rparr>
          False)
   \<and> render_page ascii_lower
          \<lparr>slug = asc ''<script>s'', name = asc ''<script>n'', description = asc ''<script>d'',
            price = asc ''<script>p'',
            front = \<lparr>path_suffix = asc ''.jpg'', as_uri = None, read_bytes = Some [77, 97, 110]\<rparr>,
            back_image = \<lparr>path_suffix = asc ''.jpg'', as_uri = None, read_bytes = None\<rparr>,
            detail1 = \<lparr>path_suffix = asc ''.jpg'', as_uri = None, read_bytes = None\<rparr>,
            detail2 = \<lparr>path_suffix = asc ''.jpg'', as_uri = None, read_bytes = None\<rparr>,
            description_blocks = [\<lparr>title = asc ''<script>t'', content = asc ''<script>c''\<rparr>],
            metadata_path = None, raw_metadata = RawNone\<rparr>
          False
       = page_part_0 @ asc ''&lt;script&gt;s'' @ page_part_1 @ asc ''&lt;script&gt;n''
         @ page_part_2
         @ asc ''<p>&lt;script&gt;d</p><div class='desc-grid'>''
         @ asc ''<article><h3>&lt;script&gt;t</h3><p>&lt;script&gt;c</p></article></div>''
         @ page_part_3 @ asc ''&lt;script&gt;p''
         @ page_part_4 @ asc ''data:image/jpg;base64,TWFu''
         @ page_part_5 @ asc ''&lt;script&gt;n''
         @ page_part_6 @ page_part_5 @ asc ''&lt;script&gt;n''
         @ page_part_8 @ page_part_5 @ asc ''&lt;script&gt;n''
         @ page_part_10 @ page_part_5 @ asc ''&lt;script&gt;n''
         @ page_part_12"
proof -
  let ?e = "\<lparr>slug = asc ''<script>s'', name = asc ''<script>n'', description = asc ''<script>d'',
            price = asc ''<script>p'',
            front = \<lparr>path_suffix = asc ''.jpg'', as_uri = None, read_bytes = Some [77, 97, 110]\<rparr>,
            back_image = \<lparr>path_suffix = asc ''.jpg'', as_uri = None, read_bytes = None\<rparr>,
            detail1 = \<lparr>path_suffix = asc ''.jpg'', as_uri = None, read_bytes = None\<rparr>,
            detail2 = \<lparr>path_suffix = asc ''.jpg'', as_uri = None, read_bytes = None\<rparr>,
            description_blocks = [\<lparr>title = asc ''<script>t'', content = asc ''<script>c''\<rparr>],
            metadata_path = None, raw_metadata = RawNone\<rparr>"
  have u: "to_uri ascii_lower False (front ?e) = asc ''data:image/jpg;base64,TWFu''"
    by (simp add: to_uri_def ascii_lower_def strip_chars_def b64_char_def asc_def Let_def)
  then have h1: "60 \<notin> set (to_uri ascii_lower False (front ?e))"
    by (simp add: asc_def)
  have u': "to_uri ascii_lower False (back_image ?e) = []"
    "to_uri ascii_lower False (detail1 ?e) = []" "to_uri ascii_lower False (detail2 ?e) = []"
    by (simp_all add: to_uri_def)
  then have h2: "60 \<notin> set (to_uri ascii_lower False (back_image ?e))"
    "60 \<notin> set (to_uri ascii_lower False (detail1 ?e))"
    "60 \<notin> set (to_uri ascii_lower False (detail2 ?e))"
    by simp_all
  note t = render_escapes_text [where entry = ?e and lower = ascii_lower and use_file_uri = False]
  from t h1 h2 have a: "\<not> sublist (asc ''<script'') (render_page ascii_lower ?e False)"
    by blast
  have f: "inline_text (slug ?e) = asc ''&lt;script&gt;s''"
    "inline_text (name ?e) = asc ''&lt;script&gt;n''"
    "inline_text (price ?e) = asc ''&lt;script&gt;p''"
    by (simp_all add: inline_text_def escape_char_def asc_def)
  have d: "description_markup (description ?e) (description_blocks ?e)
      = asc ''<p>&lt;script&gt;d</p><div class='desc-grid'>''
        @ asc ''<article><h3>&lt;script&gt;t</h3><p>&lt;script&gt;c</p></article></div>''"
    by (simp add: description_markup_def card_markup_def inline_text_def paragraph_text_def
          escape_char_def asc_def)
  from t have "render_page ascii_lower ?e False =
       page_part_0 @ inline_text (slug ?e) @ page_part_1 @ inline_text (name ?e)
       @ page_part_2 @ description_markup (description ?e) (description_blocks ?e)
       @ page_part_3 @ inline_text (price ?e)
       @ page_part_4 @ to_uri ascii_lower False (front ?e)
       @ page_part_5 @ inline_text (name ?e)
       @ page_part_6 @ to_uri ascii_lower False (back_image ?e)
       @ page_part_5 @ inline_text (name ?e)
       @ page_part_8 @ to_uri ascii_lower False (detail1 ?e)
       @ page_part_5 @ inline_text (name ?e)
       @ page_part_10 @ to_uri ascii_lower False (detail2 ?e)
       @ page_part_5 @ inline_text (name ?e)
       @ page_part_12"
    by blast
  then have b: "render_page ascii_lower ?e False
       = page_part_0 @ asc ''&lt;script&gt;s'' @ page_part_1 @ asc ''&lt;script&gt;n''
         @ page_part_2
         @ asc ''<p>&lt;script&gt;d</p><div class='desc-grid'>''
         @ asc ''<article><h3>&lt;script&gt;t</h3><p>&lt;script&gt;c</p></article></div>''
         @ page_part_3 @ asc ''&lt;script&gt;p''
         @ page_part_4 @ asc ''data:image/jpg;base64,TWFu''
         @ page_part_5 @ asc ''&lt;script&gt;n''
         @ page_part_6 @ page_part_5 @ asc ''&lt;script&gt;n''
         @ page_part_8 @ page_part_5 @ asc ''&lt;script&gt;n''
         @ page_part_10 @ page_part_5 @ asc ''&lt;script&gt;n''
         @ page_part_12"
    unfolding f d u u' by (simp only: append_Nil append_assoc)
  from a b show ?thesis by (rule conjI)
qed



section \<open>Image references\<close>

lemma to_uri_inline:
  "read_bytes path = Some data \<Longrightarrow>
      to_uri lower False path =
        asc ''data:image/''
        @ (if strip_chars {46} (lower (path_suffix path)) = [] then asc ''jpeg''
           else strip_chars {46} (lower (path_suffix path)))
        @ asc '';base64,'' @ b64encode data"
  by (simp add: to_uri_def Let_def)

lemma startswith_append: "startswith (p @ s) p"
  by (simp add: startswith_def)

lemma data_prefix: "asc ''data:image/'' @ s = asc ''data:'' @ asc ''image/'' @ s"
  by (simp add: asc_def)

lemma strip_chars_Nil: "strip_chars cs [] = []"
  by (simp add: strip_chars_def)

lemma jpeg_prefix: "asc ''data:image/'' @ asc ''jpeg'' @ asc '';base64,'' @ s = asc ''data:image/jpeg;base64,'' @ s"
  by (simp add: asc_def)

text \<open>
  C9, as amended. Under the inline policy a readable image path gives a \<open>data:\<close> URI
  whose MIME subtype is the lowered extension with its dots stripped, whatever the
  extension is, followed by the base64 text of the bytes; the subtype is \<open>jpeg\<close> only
  when nothing is left of the extension, as when the path has none.
\<close>

theorem to_uri_inline_subtype:
  "(read_bytes path = Some data \<longrightarrow>
      to_uri lower False path =
        asc ''data:image/''
        @ (if strip_chars {46} (lower (path_suffix path)) = [] then asc ''jpeg''
           else strip_chars {46} (lower (path_suffix path)))
        @ asc '';base64,'' @ b64encode data
      \<and> startswith (to_uri lower False path) (asc ''data:''))
   \<and> (read_bytes path = Some data \<and> path_suffix path = [] \<and> lower [] = [] \<longrightarrow>
      to_uri lower False path = asc ''data:image/jpeg;base64,'' @ b64encode data)"
proof -
  have a: "startswith (to_uri lower False path) (asc ''data:'')" if "read_bytes path = Some data"
    unfolding to_uri_inline [OF that] data_prefix by (rule startswith_append)
  have b: "to_uri lower False path = asc ''data:image/jpeg;base64,'' @ b64encode data"
    if "read_bytes path = Some data \<and> path_suffix path = [] \<and> lower [] = []"
    using that to_uri_inline [of path data lower] by (simp add: strip_chars_Nil jpeg_prefix)
  from a b to_uri_inline [of path data lower] show ?thesis by blast
qed

theorem to_uri_inline_subtype_witness:
  "to_uri ascii_lower False
     \<lparr>path_suffix = asc ''.PNG'', as_uri = None, read_bytes = Some [77, 97, 110]\<rparr>
     = asc ''data:image/png;base64,TWFu''
   \<and> to_uri ascii_lower False
     \<lparr>path_suffix = [], as_uri = None, read_bytes = Some [77, 97]\<rparr>
     = asc ''data:image/jpeg;base64,TWE=''"
proof -
  let ?p = "\<lparr>path_suffix = asc ''.PNG'', as_uri = None, read_bytes = Some [77, 97, 110]\<rparr>"
  let ?q = "\<lparr>path_suffix = [], as_uri = None, read_bytes = Some [77::nat, 97]\<rparr>"
  have "read_bytes ?p = Some [77, 97, 110]" by simp
  with to_uri_inline_subtype [of ?p "[77, 97, 110]" ascii_lower]
  have "to_uri ascii_lower False ?p =
        asc ''data:image/''
        @ (if strip_chars {46} (ascii_lower (path_suffix ?p)) = [] then asc ''jpeg''
           else strip_chars {46} (ascii_lower (path_suffix ?p)))
        @ asc '';base64,'' @ b64encode [77, 97, 110]"
    by blast
  also have "\<dots> = asc ''data:image/png;base64,TWFu''"
    by (simp add: ascii_lower_def strip_chars_def b64_char_def asc_def)
  finally have a: "to_uri ascii_lower False ?p = asc ''data:image/png;base64,TWFu''" .
  have "read_bytes ?q = Some [77, 97] \<and> path_suffix ?q = [] \<and> ascii_lower [] = []"
    by (simp add: ascii_lower_def)
  with to_uri_inline_subtype [of ?q "[77, 97]" ascii_lower]
  have "to_uri ascii_lower False ?q = asc ''data:image/jpeg;base64,'' @ b64encode [77, 97]"
    by blast
  also have "\<dots> = asc ''data:image/jpeg;base64,TWE=''"
    by (simp add: b64_char_def asc_def)
  finally show ?thesis using a by blast
qed

text \<open>
  C9 as stated fails: an extension that names no image type is not replaced by
  \<open>jpeg\<close>; the path \<open>notes.xyz\<close> gives the MIME type \<open>image/xyz\<close>.
\<close>

theorem to_uri_unrecognized_counterexample:
  "to_uri ascii_lower False
     \<lparr>path_suffix = asc ''.xyz'', as_uri = None, read_bytes = Some [77, 97, 110]\<rparr>
     = asc ''data:image/xyz;base64,TWFu''
   \<and> \<not> startswith
        (to_uri ascii_lower False
           \<lparr>path_suffix = asc ''.xyz'', as_uri = None, read_bytes = Some [77, 97, 110]\<rparr>)
        (asc ''data:image/jpeg'')"
  by (simp add: to_uri_def ascii_lower_def strip_chars_def b64_char_def startswith_def
        asc_def Let_def)




section \<open>Loading a folder\<close>

lemma normalize_metadata_name:
  "normalize_metadata repr_str (JDict d) = Inr md \<Longrightarrow>
     md_name md = strip (py_str repr_str (dict_get_default d (asc ''name'') (JStr [])))"
  by (auto simp: normalize_metadata_def Let_def)

lemma normalize_metadata_total: "\<exists>md. normalize_metadata repr_str (JDict d) = Inr md"
  by (simp add: normalize_metadata_def Let_def)

lemma missing_name: "asc ''name'' \<notin> set (map fst d) \<Longrightarrow>
    strip (py_str repr_str (dict_get_default d (asc ''name'') (JStr []))) = []"
proof -
  assume "asc ''name'' \<notin> set (map fst d)"
  then have "map_of d (asc ''name'') = None" by (simp add: map_of_eq_None_iff)
  then show ?thesis by (simp add: dict_get_default_def py_str_def strip_Nil)
qed

lemma load_folder_entry:
  assumes "is_dir f" "folder_name f \<noteq> [27169, 26495]"
    "\<not> startswith (folder_name f) (asc ''.'')"
    "load_metadata json_loads lower repr_str f = Inr (md, p, raw)"
    "img_front f = Some fr" "img_back f = Some bk" "img_detail1 f = Some d1"
    "img_detail2 f = Some d2"
  shows "load_folder json_loads lower repr_str f =
     Entry \<lparr>slug = folder_name f,
            name = (if md_name md \<noteq> [] then md_name md else folder_name f),
            description = md_description md, price = md_price md,
            front = image_of fr, back_image = image_of bk,
            detail1 = image_of d1, detail2 = image_of d2,
            description_blocks = md_description_blocks md,
            metadata_path = Some p, raw_metadata = raw\<rparr>"
  using assms by (simp add: load_folder_def Let_def)

lemma load_metadata_json:
  assumes "info_json f = Some (Text t)" "strip t \<noteq> []" "lower (asc ''.json'') = asc ''.json''"
    "json_loads (strip t) = Parsed (JDict d)" "normalize_metadata repr_str (JDict d) = Inr md"
  shows "load_metadata json_loads lower repr_str f =
           Inr (md, [folder_name f, info_json_name], RawJson (JDict d))"
  using assms by (simp add: load_metadata_def parse_metadata_file_unfold)


text \<open>
  C10. When a folder that is not passed over has a structured metadata file that parses
  to an object and all four images, the entry's display name is the trimmed,
  stringified \<open>name\<close> of the object when that is not empty, and the folder name (the
  slug) when it is empty; it is empty in particular when the object has no \<open>name\<close> key.
\<close>

theorem load_folder_display_name:
  assumes "is_dir f" "folder_name f \<noteq> [27169, 26495]"
    "\<not> startswith (folder_name f) (asc ''.'')"
    "info_json f = Some (Text t)" "strip t \<noteq> []" "lower (asc ''.json'') = asc ''.json''"
    "json_loads (strip t) = Parsed (JDict d)"
    "img_front f = Some fr" "img_back f = Some bk" "img_detail1 f = Some d1"
    "img_detail2 f = Some d2"
  shows "\<exists>e. load_folder json_loads lower repr_str f = Entry e
           \<and> slug e = folder_name f
           \<and> name e =
               (if strip (py_str repr_str (dict_get_default d (asc ''name'') (JStr []))) = []
                then folder_name f
                else strip (py_str repr_str (dict_get_default d (asc ''name'') (JStr []))))
           \<and> (asc ''name'' \<notin> set (map fst d) \<longrightarrow> name e = folder_name f)"
proof -
  obtain md where md: "normalize_metadata repr_str (JDict d) = Inr md"
    using normalize_metadata_total by blast
  have n: "md_name md = strip (py_str repr_str (dict_get_default d (asc ''name'') (JStr [])))"
    using md by (rule normalize_metadata_name)
  have "load_metadata json_loads lower repr_str f =
           Inr (md, [folder_name f, info_json_name], RawJson (JDict d))"
    using assms(4-7) md by (rule load_metadata_json)
  then have "load_folder json_loads lower repr_str f =
     Entry \<lparr>slug = folder_name f,
            name = (if md_name md \<noteq> [] then md_name md else folder_name f),
            description = md_description md, price = md_price md,
            front = image_of fr, back_image = image_of bk,
            detail1 = image_of d1, detail2 = image_of d2,
            description_blocks = md_description_blocks md,
            metadata_path = Some [folder_name f, info_json_name],
            raw_metadata = RawJson (JDict d)\<rparr>"
    using assms(1-3,8-11) by (intro load_folder_entry)
  then show ?thesis
    unfolding n using missing_name [of d repr_str] by auto
qed


theorem load_folder_display_name_witness:
  \<open>\<exists>e. load_folder (\<lambda>s. Parsed (JDict [(asc ''price'', JStr (asc ''100''))])) ascii_lower id
          \<lparr>folder_name = asc ''dress-01'', is_dir = True,
            info_json = Some (Text (asc ''{"price": "100"}'')), info_txt = None,
            img_front = Some \<lparr>file_uri = None, file_bytes = None\<rparr>,
            img_back = Some \<lparr>file_uri = None, file_bytes = None\<rparr>,
            img_detail1 = Some \<lparr>file_uri = None, file_bytes = None\<rparr>,
            img_detail2 = Some \<lparr>file_uri = None, file_bytes = None\<rparr>\<rparr> = Entry e
        \<and> name e = asc ''dress-01''\<close>
proof -
  let ?L = "\<lambda>s::pystr. Parsed (JDict [(asc ''price'', JStr (asc ''100''))])"
  let ?file = "\<lparr>file_uri = None, file_bytes = None\<rparr>"
  let ?t = \<open>asc ''{"price": "100"}''\<close>
  let ?f = "\<lparr>folder_name = asc ''dress-01'', is_dir = True,
            info_json = Some (Text ?t), info_txt = None,
            img_front = Some ?file, img_back = Some ?file,
            img_detail1 = Some ?file, img_detail2 = Some ?file\<rparr>"
  have h: "is_dir ?f" "folder_name ?f \<noteq> [27169, 26495]"
    "\<not> startswith (folder_name ?f) (asc ''.'')"
    "info_json ?f = Some (Text ?t)"
    "strip ?t \<noteq> []"
    "ascii_lower (asc ''.json'') = asc ''.json''"
    "?L (strip ?t) = Parsed (JDict [(asc ''price'', JStr (asc ''100''))])"
    "img_front ?f = Some ?file" "img_back ?f = Some ?file" "img_detail1 ?f = Some ?file"
    "img_detail2 ?f = Some ?file"
    by (simp_all add: str_eval ascii_lower_def)
  have k: "asc ''name'' \<notin> set (map fst [(asc ''price'', JStr (asc ''100''))])"
    by (simp add: asc_def)
  note t = load_folder_display_name
    [where f = ?f and t = ?t and lower = ascii_lower and json_loads = ?L and repr_str = id
       and d = "[(asc ''price'', JStr (asc ''100''))]"
       and fr = ?file and bk = ?file and ?d1.0 = ?file and ?d2.0 = ?file]
  from t [OF h] k
  obtain e where "load_folder ?L ascii_lower id ?f = Entry e" "name e = folder_name ?f"
    by blast
  then show ?thesis by (intro exI [of _ e]) simp
qed



section \<open>Parsing what was written\<close>

lemmas normalize_eval =
  normalize_metadata_def coerce_desc_value_def coerce_blocks_def prepare_json_payload_def
  convert_desc_for_json_def split_paragraphs_def reparse_def is_surrogate_def Let_def

lemma dropWhile_none: "\<forall>c \<in> set s. \<not> P c \<Longrightarrow> dropWhile P s = s"
  by (cases s) simp_all

lemma strip_no_space: "\<forall>c \<in> set s. \<not> is_space c \<Longrightarrow> strip s = s"
proof -
  assume a: "\<forall>c \<in> set s. \<not> is_space c"
  then have "\<forall>c \<in> set (rev s). \<not> is_space c" by simp
  then have "dropWhile is_space (rev s) = rev s" by (rule dropWhile_none)
  moreover from a have "dropWhile is_space s = s" by (rule dropWhile_none)
  ultimately show ?thesis by (simp add: strip_def lstrip_def rstrip_def)
qed

lemma str_nat_digits: "\<forall>c \<in> set (str_nat n). 48 \<le> c \<and> c \<le> 57"
proof (induction n rule: str_nat.induct)
  case (1 n)
  show ?case
  proof (cases "n < 10")
    case True
    then show ?thesis by (subst str_nat.simps) simp
  next
    case False
    with 1 show ?thesis by (subst str_nat.simps) auto
  qed
qed

lemma str_int_stripped: "strip (str_int i) = str_int i"
proof (rule strip_no_space)
  have "\<not> is_space c" if "48 \<le> c \<and> c \<le> 57" for c
    using that by (auto simp: is_space_def)
  moreover have "\<not> is_space 45" by (simp add: is_space_def)
  ultimately show "\<forall>c \<in> set (str_int i). \<not> is_space c"
    using str_nat_digits by (auto simp: str_int_def)
qed

lemma bool_stripped: "strip (asc ''True'') = asc ''True''" "strip (asc ''False'') = asc ''False''"
  by (simp_all add: str_eval)

lemma coerce_scalar_stripped:
  assumes "\<not> is_JList v" "\<And>r. v = JFloat r \<Longrightarrow> strip r = r"
  shows "strip (fst (coerce_desc_value repr_str v)) = fst (coerce_desc_value repr_str v)"
  using assms
  by (cases v)
     (auto simp: coerce_desc_value_def py_str_def strip_Nil strip_idem str_int_stripped
        bool_stripped is_JList_def split: option.splits)


lemma dict_get_lookup: "map_of p k = Some v \<Longrightarrow> dict_get p k = v"
  "map_of p k = Some v \<Longrightarrow> dict_get_default p k dflt = v"
  "map_of p k = None \<Longrightarrow> dict_get p k = JNull"
  by (simp_all add: dict_get_def dict_get_default_def)

text \<open>
  How far the round trip does hold when the tree can be written (no lone surrogate in
  it): the name and the price are always reproduced, and so is the description when the
  origin's description is not a list (a float being printed without surrounding
  blanks).
\<close>

lemma reparse_fields:
  assumes md: "normalize_metadata repr_str (JDict d) = Inr md"
    and enc: "encodable (JDict (prepare_json_payload (RawJson (JDict d))
                \<lparr>ed_name = md_name md, ed_price = md_price md,
                  ed_desc = md_description md\<rparr>))"
  shows "\<exists>md'. reparse repr_str (JDict d) = Inr md'
           \<and> md_name md' = md_name md \<and> md_price md' = md_price md
           \<and> (\<not> is_JList (dict_get d (asc ''description''))
                \<and> (\<forall>r. dict_get d (asc ''description'') = JFloat r \<longrightarrow> strip r = r)
              \<longrightarrow> md_description md' = md_description md)"
proof -
  let ?v = "dict_get d (asc ''description'')"
  let ?data = "\<lparr>ed_name = md_name md, ed_price = md_price md, ed_desc = md_description md\<rparr>"
  let ?p = "prepare_json_payload (RawJson (JDict d)) ?data"
  note look = prepare_json_payload_lookup [of d ?data]
  have n: "md_name md = strip (py_str repr_str (dict_get_default d (asc ''name'') (JStr [])))"
    and pr: "md_price md = strip (py_str repr_str (dict_get_default d (asc ''price'') (JStr [])))"
    and de: "md_description md =
       (case dict_get d (asc ''desc'') of
          JStr s \<Rightarrow> if fst (coerce_desc_value repr_str ?v) = [] then strip s
                    else fst (coerce_desc_value repr_str ?v)
        | _ \<Rightarrow> fst (coerce_desc_value repr_str ?v))"
    using md by (auto simp: normalize_metadata_def Let_def)
  have pn: "dict_get_default ?p (asc ''name'') (JStr []) = JStr (md_name md)"
    and pp: "dict_get_default ?p (asc ''price'') (JStr []) = JStr (md_price md)"
    using look by (simp_all add: dict_get_lookup)
  obtain md' where md': "normalize_metadata repr_str (JDict ?p) = Inr md'"
    by (auto simp: normalize_metadata_def Let_def)
  then have r: "reparse repr_str (JDict d) = Inr md'"
    using md enc by (simp add: reparse_def Let_def)
  have n': "md_name md' = strip (py_str repr_str (dict_get_default ?p (asc ''name'') (JStr [])))"
    and pr': "md_price md' = strip (py_str repr_str (dict_get_default ?p (asc ''price'') (JStr [])))"
    and de': "md_description md' =
       (case dict_get ?p (asc ''desc'') of
          JStr s \<Rightarrow> if fst (coerce_desc_value repr_str (dict_get ?p (asc ''description''))) = []
                    then strip s
                    else fst (coerce_desc_value repr_str (dict_get ?p (asc ''description'')))
        | _ \<Rightarrow> fst (coerce_desc_value repr_str (dict_get ?p (asc ''description''))))"
    using md' by (auto simp: normalize_metadata_def Let_def)
  have name: "md_name md' = md_name md"
    unfolding n' pn by (simp add: py_str_def) (simp add: n strip_idem)
  have price: "md_price md' = md_price md"
    unfolding pr' pp by (simp add: py_str_def) (simp add: pr strip_idem)
  have desc: "md_description md' = md_description md"
    if nl: "\<not> is_JList ?v" and fl: "\<forall>r. ?v = JFloat r \<longrightarrow> strip r = r"
  proof -
    have st: "strip (md_description md) = md_description md"
      unfolding de using coerce_scalar_stripped [of ?v repr_str] nl fl
      by (auto simp: strip_idem split: json.splits)
    have pd: "dict_get ?p (asc ''description'') = JStr (md_description md)"
      using look nl by (simp add: dict_get_lookup st)
    have c: "fst (coerce_desc_value repr_str (dict_get ?p (asc ''description''))) = md_description md"
      unfolding pd by (simp add: coerce_desc_value_def st)
    show ?thesis
    proof (cases "asc ''desc'' \<in> set (map fst d)")
      case True
      with look have "dict_get ?p (asc ''desc'') = JStr (md_description md)"
        by (simp add: dict_get_lookup)
      then show ?thesis unfolding de' c by (simp add: st strip_Nil)
    next
      case False
      with look have "dict_get ?p (asc ''desc'') = JNull"
        by (simp add: dict_get_lookup)
      then show ?thesis unfolding de' c by simp
    qed
  qed
  from r name price desc show ?thesis by blast
qed


text \<open>
  C1 at the specification's own example. The tree with name \<open>A\<close>, price \<open>100\<close> and
  the description list \<open>line one\<close>, \<open>line two\<close> parses to the description
  \<open>line one\<close>, newline, \<open>line two\<close>. Written back with the parsed fields unchanged and
  parsed again, the description is \<open>line one line two\<close>: the two paragraphs are merged,
  so the description is not reproduced.
\<close>

theorem reparse_list_description:
  "normalize_metadata id
     (JDict [(asc ''name'', JStr (asc ''A'')), (asc ''price'', JStr (asc ''100'')),
             (asc ''description'', JList [JStr (asc ''line one''), JStr (asc ''line two'')])])
     = Inr \<lparr>md_name = asc ''A'', md_price = asc ''100'',
            md_description = asc ''line one'' @ [10] @ asc ''line two'',
            md_description_blocks = []\<rparr>
   \<and> reparse id
     (JDict [(asc ''name'', JStr (asc ''A'')), (asc ''price'', JStr (asc ''100'')),
             (asc ''description'', JList [JStr (asc ''line one''), JStr (asc ''line two'')])])
     = Inr \<lparr>md_name = asc ''A'', md_price = asc ''100'',
            md_description = asc ''line one line two'',
            md_description_blocks = []\<rparr>"
  by (simp add: normalize_eval str_eval dict_eval lines_eval)



end
